theory Spec2Isabelle
  imports Complex_Main
begin

section \<open>Numbers, vectors and the distortion collaborator\<close>

text \<open>
  The C++ \<^verbatim>\<open>double\<close> is modelled by \<^typ>\<open>real\<close>: comparisons, signs and the
  algebraic shape of every formula are kept; rounding, infinities and NaN are not.
  Where the C++ divides by zero or takes the root of a negative number it computes
  with an infinity or a NaN; the model then only records the formula.
  \<^verbatim>\<open>int\<close> fields are \<^typ>\<open>int\<close>, \<^verbatim>\<open>size_t\<close> counters are \<^typ>\<open>nat\<close>.
  A fixed-size Eigen vector is a tuple.
\<close>

type_synonym vec2 = "real \<times> real"
type_synonym vec3 = "real \<times> real \<times> real"
type_synonym vec4 = "real \<times> real \<times> real \<times> real"

text \<open>A 2 by 2 matrix (the distortion Jacobian \<^verbatim>\<open>Jd\<close>), as its two rows.\<close>

type_synonym mat22 = "(real \<times> real) \<times> (real \<times> real)"

text \<open>
  \<^verbatim>\<open>DISTORTION_T\<close> is a template parameter of \<^verbatim>\<open>PinholeProjection\<close>; its code is
  not part of \<^verbatim>\<open>pinhole-camera.cc\<close>. Its member functions are taken as parameters:
  \<^verbatim>\<open>distort(y)\<close>, \<^verbatim>\<open>distort(y, Jd)\<close>, \<^verbatim>\<open>undistort(y)\<close>, \<^verbatim>\<open>undistort(y, Jd)\<close>
  and \<^verbatim>\<open>clear()\<close>, each acting on the distortion object \<open>'d\<close>.
\<close>

record 'd distortion_ops =
  distort :: "'d \<Rightarrow> vec2 \<Rightarrow> vec2"
  distortJ :: "'d \<Rightarrow> vec2 \<Rightarrow> vec2 \<times> mat22"
  undistort :: "'d \<Rightarrow> vec2 \<Rightarrow> vec2"
  undistortJ :: "'d \<Rightarrow> vec2 \<Rightarrow> vec2 \<times> mat22"
  clear :: "'d \<Rightarrow> 'd"

section \<open>The pinhole projection object\<close>

text \<open>
  The fields of \<^verbatim>\<open>PinholeProjection\<close>: \<^verbatim>\<open>_fu, _fv, _cu, _cv\<close>
  (doubles), \<^verbatim>\<open>_ru, _rv\<close> (ints), the cached \<^verbatim>\<open>_recip_fu, _recip_fv, _fu_over_fv\<close>
  and the owned \<^verbatim>\<open>_distortion\<close>.
\<close>

record 'd PinholeProjection =
  fu :: real
  fv :: real
  cu :: real
  cv :: real
  ru :: int
  rv :: int
  recip_fu :: real
  recip_fv :: real
  fu_over_fv :: real
  distortion :: 'd

text \<open>\<^verbatim>\<open>updateTemporaries\<close> (lines 546-552).\<close>

definition updateTemporaries :: "'d PinholeProjection \<Rightarrow> 'd PinholeProjection" where
  "updateTemporaries c =
     c\<lparr>recip_fu := 1 / fu c, recip_fv := 1 / fv c, fu_over_fv := fu c / fv c\<rparr>"

text \<open>\<^verbatim>\<open>isValid\<close> (lines 481-488); \<^verbatim>\<open>(double) _ru\<close> is the embedding of the int.\<close>

definition isValid :: "'d PinholeProjection \<Rightarrow> vec2 \<Rightarrow> bool" where
  "isValid c keypoint =
     (fst keypoint \<ge> 0 \<and> snd keypoint \<ge> 0 \<and> fst keypoint < real_of_int (ru c)
        \<and> snd keypoint < real_of_int (rv c))"

text \<open>
  \<^verbatim>\<open>euclideanToKeypoint(p, outKeypoint)\<close> (lines 70-95). The output keypoint is
  resized to 2 and written unconditionally; the model returns it with the status.
\<close>

definition euclideanToKeypoint ::
  "'d distortion_ops \<Rightarrow> 'd PinholeProjection \<Rightarrow> vec3 \<Rightarrow> vec2 \<times> bool" where
  "euclideanToKeypoint D c p =
     (case p of (p0, p1, p2) \<Rightarrow>
        let rz = 1 / p2;
            outKeypoint = (p0 * rz, p1 * rz);
            outKeypoint = distort D (distortion c) outKeypoint;
            outKeypoint = (fu c * fst outKeypoint + cu c, fv c * snd outKeypoint + cv c)
        in (outKeypoint, isValid c outKeypoint \<and> p2 > 0))"

text \<open>
  \<^verbatim>\<open>homogeneousToKeypoint(ph, outKeypoint)\<close> (lines 145-161):
  \<^verbatim>\<open>-ph.head<3>()\<close> when \<^verbatim>\<open>ph[3] < 0\<close>, else \<^verbatim>\<open>ph.head<3>()\<close>.
\<close>

definition head3 :: "vec4 \<Rightarrow> vec3" where
  "head3 ph = (case ph of (x, y, z, w) \<Rightarrow> (x, y, z))"

definition neg3 :: "vec3 \<Rightarrow> vec3" where
  "neg3 p = (case p of (x, y, z) \<Rightarrow> (- x, - y, - z))"

definition homogeneousToKeypoint ::
  "'d distortion_ops \<Rightarrow> 'd PinholeProjection \<Rightarrow> vec4 \<Rightarrow> vec2 \<times> bool" where
  "homogeneousToKeypoint D c ph =
     (case ph of (x, y, z, w) \<Rightarrow>
        if w < 0 then euclideanToKeypoint D c (neg3 (head3 ph))
        else euclideanToKeypoint D c (head3 ph))"

text \<open>
  \<^verbatim>\<open>keypointToEuclidean(keypoint, outPoint)\<close> (lines 198-225). The local copy
  \<^verbatim>\<open>kp\<close> is transformed; the status is taken from the argument \<^verbatim>\<open>keypoint\<close>.
\<close>

definition keypointToEuclidean ::
  "'d distortion_ops \<Rightarrow> 'd PinholeProjection \<Rightarrow> vec2 \<Rightarrow> vec3 \<times> bool" where
  "keypointToEuclidean D c keypoint =
     (let kp = keypoint;
          kp = ((fst kp - cu c) / fu c, (snd kp - cv c) / fv c);
          kp = undistort D (distortion c) kp;
          outPoint = (fst kp, snd kp, 1)
      in (outPoint, isValid c keypoint))"

section \<open>Eigen output parameters with run-time dimensions\<close>

text \<open>
  The Jacobian overloads write through \<^verbatim>\<open>Eigen::MatrixBase\<close> references whose
  dimensions are only known at run time. A matrix carries whether its type is
  dynamically sized, its current dimensions and its coefficients (row by row).
  Eigen checks a resize of a fixed-size object or of a block, an index and a block
  against the actual dimensions; a failed check is an error value here.
\<close>

datatype error =
    ResizeFixedSize
  | IndexOutOfRange
  | BlockOutOfRange
  | NeedMinOneObservation
  | UnsupportedSerializationVersion

record mat =
  dynamic :: bool
  m_rows :: nat
  m_cols :: nat
  coeffs :: "real list list"

text \<open>
  \<^verbatim>\<open>derived().resize(r, c)\<close>: a dynamic matrix takes the new dimensions (its
  coefficients are then uninitialised; every caller below overwrites them with
  \<^verbatim>\<open>setZero()\<close> at once, so the zeros chosen here are never observed); a fixed-size
  matrix or a block only accepts its own dimensions.
\<close>

definition resize :: "nat \<Rightarrow> nat \<Rightarrow> mat \<Rightarrow> error + mat" where
  "resize r c m =
     (if dynamic m then
        Inr (m\<lparr>m_rows := r, m_cols := c, coeffs := replicate r (replicate c 0)\<rparr>)
      else if m_rows m = r \<and> m_cols m = c then Inr m
      else Inl ResizeFixedSize)"

definition setZero :: "mat \<Rightarrow> mat" where
  "setZero m = m\<lparr>coeffs := replicate (m_rows m) (replicate (m_cols m) 0)\<rparr>"

text \<open>\<^verbatim>\<open>J(i, j) = v\<close>, used below only after a resize has fixed the dimensions.\<close>

definition put :: "nat \<Rightarrow> nat \<Rightarrow> real \<Rightarrow> mat \<Rightarrow> mat" where
  "put i j v m = m\<lparr>coeffs := (coeffs m)[i := (coeffs m ! i)[j := v]]\<rparr>"

text \<open>\<^verbatim>\<open>P(i, j)\<close> read with the index check.\<close>

definition coeff_at :: "mat \<Rightarrow> nat \<Rightarrow> nat \<Rightarrow> error + real" where
  "coeff_at m i j = (if i < m_rows m \<and> j < m_cols m then Inr (coeffs m ! i ! j) else Inl IndexOutOfRange)"

text \<open>
  \<^verbatim>\<open>topLeftCorner<r, c>()\<close>: a fixed-size view of the first \<open>r\<close> rows and \<open>c\<close>
  columns, which must exist. The callee's writes to the view land in the parent:
  \<open>assignTopLeftCorner\<close> copies the view back.
\<close>

definition topLeftCorner :: "nat \<Rightarrow> nat \<Rightarrow> mat \<Rightarrow> error + mat" where
  "topLeftCorner r c m =
     (if r \<le> m_rows m \<and> c \<le> m_cols m then
        Inr \<lparr>dynamic = False, m_rows = r, m_cols = c,
             coeffs = map (take c) (take r (coeffs m))\<rparr>
      else Inl BlockOutOfRange)"

definition assignTopLeftCorner :: "mat \<Rightarrow> mat \<Rightarrow> mat" where
  "assignTopLeftCorner b m =
     m\<lparr>coeffs := map2 (\<lambda>brow mrow. brow @ drop (m_cols b) mrow) (coeffs b) (take (m_rows b) (coeffs m))
                    @ drop (m_rows b) (coeffs m)\<rparr>"

text \<open>\<^verbatim>\<open>p[i] = v\<close> on a vector of run-time length, with the index check.\<close>

definition setCoeff :: "nat \<Rightarrow> real \<Rightarrow> real list \<Rightarrow> error + real list" where
  "setCoeff i v p = (if i < length p then Inr (p[i := v]) else Inl IndexOutOfRange)"

text \<open>\<^verbatim>\<open>J *= Jd\<close> for a matrix with two columns and the 2 by 2 \<^verbatim>\<open>Jd\<close>.\<close>

definition mulJd :: "mat \<Rightarrow> mat22 \<Rightarrow> mat" where
  "mulJd J Jd =
     J\<lparr>coeffs := map (\<lambda>row. [row ! 0 * fst (fst Jd) + row ! 1 * fst (snd Jd),
                              row ! 0 * snd (fst Jd) + row ! 1 * snd (snd Jd)]) (coeffs J)\<rparr>"

section \<open>The Jacobian overloads\<close>

text \<open>
  \<^verbatim>\<open>euclideanToKeypoint(p, outKeypoint, outJp)\<close> (lines 97-143);
  \<^verbatim>\<open>KeypointDimension\<close> is 2.
\<close>

definition euclideanToKeypointJ ::
  "'d distortion_ops \<Rightarrow> 'd PinholeProjection \<Rightarrow> vec3 \<Rightarrow> mat \<Rightarrow> error + (vec2 \<times> mat \<times> bool)" where
  "euclideanToKeypointJ D c p outJp =
     (case p of (p0, p1, p2) \<Rightarrow>
        (case resize 2 3 outJp of
          Inl e \<Rightarrow> Inl e
        | Inr J \<Rightarrow>
            let J = setZero J;
                rz = 1 / p2;
                rz2 = rz * rz;
                outKeypoint = (p0 * rz, p1 * rz);
                (outKeypoint, Jd) = distortJ D (distortion c) outKeypoint;
                J = put 0 0 (fu c * fst (fst Jd) * rz) J;
                J = put 0 1 (fu c * snd (fst Jd) * rz) J;
                J = put 0 2 (- fu c * (p0 * fst (fst Jd) + p1 * snd (fst Jd)) * rz2) J;
                J = put 1 0 (fv c * fst (snd Jd) * rz) J;
                J = put 1 1 (fv c * snd (snd Jd) * rz) J;
                J = put 1 2 (- fv c * (p0 * fst (snd Jd) + p1 * snd (snd Jd)) * rz2) J;
                outKeypoint = (fu c * fst outKeypoint + cu c, fv c * snd outKeypoint + cv c)
            in Inr (outKeypoint, J, isValid c outKeypoint \<and> p2 > 0)))"

text \<open>
  \<^verbatim>\<open>homogeneousToKeypoint(ph, outKeypoint, outJp)\<close> (lines 163-196). Line 183 is
  an unconditional \<^verbatim>\<open>return\<close> of \<^verbatim>\<open>euclideanToKeypoint\<close> on \<^verbatim>\<open>ph.head<3>()\<close> and the
  top-left 2 by 3 block of \<^verbatim>\<open>J\<close>. The \<^verbatim>\<open>if (ph[3] < 0)\<close> statement of lines 186-195
  follows it: \<open>signAwareBranch\<close> is that statement (with \<^verbatim>\<open>J = -J\<close> as \<open>negate\<close>), and
  \<open>returnThen\<close> is the meaning of a \<^verbatim>\<open>return\<close> with statements after it.
\<close>

definition negate :: "mat \<Rightarrow> mat" where
  "negate m = m\<lparr>coeffs := map (map uminus) (coeffs m)\<rparr>"

definition projectIntoBlock ::
  "'d distortion_ops \<Rightarrow> 'd PinholeProjection \<Rightarrow> vec3 \<Rightarrow> mat \<Rightarrow> error + (vec2 \<times> mat \<times> bool)" where
  "projectIntoBlock D c p J =
     (case topLeftCorner 2 3 J of
        Inl e \<Rightarrow> Inl e
      | Inr B \<Rightarrow>
          (case euclideanToKeypointJ D c p B of
             Inl e \<Rightarrow> Inl e
           | Inr (outKeypoint, B', ok) \<Rightarrow> Inr (outKeypoint, assignTopLeftCorner B' J, ok)))"

definition signAwareBranch ::
  "'d distortion_ops \<Rightarrow> 'd PinholeProjection \<Rightarrow> vec4 \<Rightarrow> mat \<Rightarrow> error + (vec2 \<times> mat \<times> bool)" where
  "signAwareBranch D c ph J =
     (case ph of (x, y, z, w) \<Rightarrow>
        if w < 0 then
          (case projectIntoBlock D c (neg3 (head3 ph)) J of
             Inl e \<Rightarrow> Inl e
           | Inr (outKeypoint, J, success) \<Rightarrow> Inr (outKeypoint, negate J, success))
        else projectIntoBlock D c (head3 ph) J)"

definition returnThen :: "'a \<Rightarrow> 'a \<Rightarrow> 'a" where
  "returnThen returned following = returned"

definition homogeneousToKeypointJ ::
  "'d distortion_ops \<Rightarrow> 'd PinholeProjection \<Rightarrow> vec4 \<Rightarrow> mat \<Rightarrow> error + (vec2 \<times> mat \<times> bool)" where
  "homogeneousToKeypointJ D c ph outJp =
     (case resize 2 4 outJp of
        Inl e \<Rightarrow> Inl e
      | Inr J \<Rightarrow>
          let J = setZero J
          in returnThen (projectIntoBlock D c (head3 ph) J) (signAwareBranch D c ph J))"

text \<open>\<^verbatim>\<open>keypointToEuclidean(keypoint, outPoint, outJk)\<close> (lines 227-273).\<close>

definition keypointToEuclideanJ ::
  "'d distortion_ops \<Rightarrow> 'd PinholeProjection \<Rightarrow> vec2 \<Rightarrow> mat \<Rightarrow> error + (vec3 \<times> mat \<times> bool)" where
  "keypointToEuclideanJ D c keypoint outJk =
     (let kp = keypoint;
          kp = ((fst kp - cu c) / fu c, (snd kp - cv c) / fv c);
          (kp, Jd) = undistortJ D (distortion c) kp;
          outPoint = (fst kp, snd kp, 1)
      in case resize 3 2 outJk of
           Inl e \<Rightarrow> Inl e
         | Inr J \<Rightarrow>
             let J = setZero J;
                 J = put 0 0 (recip_fu c) J;
                 J = put 1 1 (recip_fv c) J;
                 J = mulJd J Jd
             in Inr (outPoint, J, isValid c keypoint))"

text \<open>
  \<^verbatim>\<open>keypointToHomogeneous(keypoint, outPoint)\<close> (lines 275-292): the output is
  resized to 4, \<^verbatim>\<open>p[3] = 0.0\<close>, and the first three coefficients are written by
  \<^verbatim>\<open>keypointToEuclidean\<close>.
\<close>

definition keypointToHomogeneous ::
  "'d distortion_ops \<Rightarrow> 'd PinholeProjection \<Rightarrow> vec2 \<Rightarrow> vec4 \<times> bool" where
  "keypointToHomogeneous D c keypoint =
     (case keypointToEuclidean D c keypoint of
        ((x, y, z), ok) \<Rightarrow> ((x, y, z, 0), ok))"

text \<open>
  \<^verbatim>\<open>keypointToHomogeneous(keypoint, outPoint, outJk)\<close> (lines 294-320), statement
  by statement: \<^verbatim>\<open>Jk.derived().resize(2, 4)\<close>, \<^verbatim>\<open>Jk.setZero()\<close>, \<^verbatim>\<open>p[3] = 0.0\<close> on
  the output vector as it was passed (no resize), then \<^verbatim>\<open>keypointToEuclidean\<close> on
  \<^verbatim>\<open>p.head<3>()\<close> and \<^verbatim>\<open>Jk.topLeftCorner<3, 2>()\<close>. The output vector is the list
  of its current coefficients.
\<close>

definition keypointToHomogeneousJ ::
  "'d distortion_ops \<Rightarrow> 'd PinholeProjection \<Rightarrow> vec2 \<Rightarrow> real list \<Rightarrow> mat
     \<Rightarrow> error + (real list \<times> mat \<times> bool)" where
  "keypointToHomogeneousJ D c keypoint outPoint outJk =
     (case resize 2 4 outJk of
        Inl e \<Rightarrow> Inl e
      | Inr Jk \<Rightarrow>
          let Jk = setZero Jk in
          (case setCoeff 3 0 outPoint of
            Inl e \<Rightarrow> Inl e
          | Inr p \<Rightarrow>
              (case topLeftCorner 3 2 Jk of
                 Inl e \<Rightarrow> Inl e
               | Inr B \<Rightarrow>
                   (case keypointToEuclideanJ D c keypoint B of
                      Inl e \<Rightarrow> Inl e
                    | Inr ((x, y, z), B', ok) \<Rightarrow>
                        Inr ([x, y, z] @ drop 3 p, assignTopLeftCorner B' Jk, ok)))))"

section \<open>Mutators\<close>

text \<open>\<^verbatim>\<open>update(const double * v)\<close> (lines 507-516); \<^verbatim>\<open>v\<close> points to four doubles.\<close>

definition update :: "'d PinholeProjection \<Rightarrow> vec4 \<Rightarrow> 'd PinholeProjection" where
  "update c v =
     (case v of (v0, v1, v2, v3) \<Rightarrow>
        let c = c\<lparr>fu := fu c + v0\<rparr>;
            c = c\<lparr>fv := fv c + v1\<rparr>;
            c = c\<lparr>cu := cu c + v2\<rparr>;
            c = c\<lparr>cv := cv c + v3\<rparr>;
            c = c\<lparr>recip_fu := 1 / fu c\<rparr>;
            c = c\<lparr>recip_fv := 1 / fv c\<rparr>
        in c\<lparr>fu_over_fv := fu c / fv c\<rparr>)"

text \<open>\<^verbatim>\<open>setParameters(const Eigen::MatrixXd & P)\<close> (lines 532-539).\<close>

definition setParameters :: "'d PinholeProjection \<Rightarrow> mat \<Rightarrow> error + 'd PinholeProjection" where
  "setParameters c P =
     (case coeff_at P 0 0 of Inl e \<Rightarrow> Inl e | Inr a \<Rightarrow>
      (case coeff_at P 1 0 of Inl e \<Rightarrow> Inl e | Inr b \<Rightarrow>
       (case coeff_at P 2 0 of Inl e \<Rightarrow> Inl e | Inr u \<Rightarrow>
        (case coeff_at P 3 0 of Inl e \<Rightarrow> Inl e | Inr v \<Rightarrow>
          Inr (updateTemporaries (c\<lparr>fu := a, fv := b, cu := u, cv := v\<rparr>))))))"

text \<open>
  \<^verbatim>\<open>resizeIntrinsics(double scale)\<close> (lines 569-579). \<^verbatim>\<open>_ru = _ru * scale\<close>
  multiplies in double and converts back to int, which truncates towards zero.
\<close>

definition double_to_int :: "real \<Rightarrow> int" where
  "double_to_int x = (if x \<ge> 0 then \<lfloor>x\<rfloor> else \<lceil>x\<rceil>)"

definition resizeIntrinsics :: "'d PinholeProjection \<Rightarrow> real \<Rightarrow> 'd PinholeProjection" where
  "resizeIntrinsics c scale =
     (let c = c\<lparr>fu := fu c * scale\<rparr>;
          c = c\<lparr>fv := fv c * scale\<rparr>;
          c = c\<lparr>cu := cu c * scale\<rparr>;
          c = c\<lparr>cv := cv c * scale\<rparr>;
          c = c\<lparr>ru := double_to_int (real_of_int (ru c) * scale)\<rparr>;
          c = c\<lparr>rv := double_to_int (real_of_int (rv c) * scale)\<rparr>
      in updateTemporaries c)"

text \<open>
  \<^verbatim>\<open>load(ar, version)\<close> (lines 432-449). The archive delivers the seven fields in
  the order they were saved; \<^verbatim>\<open>CLASS_SERIALIZATION_VERSION\<close> is declared outside the
  file and is a parameter. The version check throws before anything is read.
\<close>

record 'd archive =
  ar_fu :: real
  ar_fv :: real
  ar_cu :: real
  ar_cv :: real
  ar_ru :: int
  ar_rv :: int
  ar_distortion :: 'd

definition load ::
  "nat \<Rightarrow> 'd PinholeProjection \<Rightarrow> 'd archive \<Rightarrow> nat \<Rightarrow> error + 'd PinholeProjection" where
  "load CLASS_SERIALIZATION_VERSION c ar version =
     (if \<not> version \<le> CLASS_SERIALIZATION_VERSION then Inl UnsupportedSerializationVersion
      else Inr (updateTemporaries
        (c\<lparr>fu := ar_fu ar, fv := ar_fv ar, cu := ar_cu ar, cv := ar_cv ar,
           ru := ar_ru ar, rv := ar_rv ar, distortion := ar_distortion ar\<rparr>)))"

text \<open>
  The constructors (lines 7-64) store the given values and call
  \<^verbatim>\<open>updateTemporaries\<close>; the default constructor stores zeros.
\<close>

definition PinholeProjection_ctor ::
  "real \<Rightarrow> real \<Rightarrow> real \<Rightarrow> real \<Rightarrow> int \<Rightarrow> int \<Rightarrow> 'd \<Rightarrow> 'd PinholeProjection" where
  "PinholeProjection_ctor focalLengthU focalLengthV imageCenterU imageCenterV resolutionU resolutionV d =
     updateTemporaries
       \<lparr>fu = focalLengthU, fv = focalLengthV, cu = imageCenterU, cv = imageCenterV,
        ru = resolutionU, rv = resolutionV, recip_fu = 0, recip_fv = 0, fu_over_fv = 0,
        distortion = d\<rparr>"

text \<open>
  \<^verbatim>\<open>createRandomKeypoint\<close> (lines 451-459). \<^verbatim>\<open>out.setRandom()\<close> fills the two
  coefficients with draws from the closed interval from -1 to 1; the draw is an
  argument of the model.
\<close>

definition createRandomKeypoint :: "'d PinholeProjection \<Rightarrow> vec2 \<Rightarrow> vec2" where
  "createRandomKeypoint c draw =
     (let out = draw;
          out = (\<bar>fst out\<bar> * real_of_int (ru c), snd out);
          out = (fst out, \<bar>snd out\<bar> * real_of_int (rv c))
      in out)"

section \<open>The circle helper\<close>

text \<open>\<^verbatim>\<open>square\<close> and \<^verbatim>\<open>hypot\<close>, defined alike in both files.\<close>

definition square :: "real \<Rightarrow> real" where
  "square x = x * x"

definition hypot :: "real \<Rightarrow> real \<Rightarrow> real" where
  "hypot a b = sqrt (square a + square b)"

text \<open>
  \<^verbatim>\<open>PinholeHelpers::intersectCircles\<close> (lines 16-46 of the helper header). Its
  declared return type is \<^verbatim>\<open>std::vector<cv::Point2d> *\<close>. Three return statements
  hand back the vector \<^verbatim>\<open>ipts\<close>; the last one is \<^verbatim>\<open>return &ipts;\<close>, the address of
  the function's local vector, which is destroyed when the function returns. The
  result records which of the two happened, and \<open>pointee\<close> is what a caller can
  read through it: nothing, once the local is gone.
\<close>

datatype intersect_result =
    ReturnedVector "vec2 list"
  | AddressOfDestroyedLocal "vec2 list"

fun pointee :: "intersect_result \<Rightarrow> vec2 list option" where
  "pointee (ReturnedVector ipts) = Some ipts"
| "pointee (AddressOfDestroyedLocal ipts) = None"

definition intersectCircles ::
  "real \<Rightarrow> real \<Rightarrow> real \<Rightarrow> real \<Rightarrow> real \<Rightarrow> real \<Rightarrow> intersect_result" where
  "intersectCircles x1 y1 r1 x2 y2 r2 =
     (let ipts = [];
          d = hypot (x1 - x2) (y1 - y2)
      in if d > r1 + r2 then ReturnedVector ipts
         else if d < \<bar>r1 - r2\<bar> then ReturnedVector ipts
         else
           let a = (square r1 - square r2 + square d) / (2 * d);
               h = sqrt (square r1 - square a);
               x3 = x1 + a * (x2 - x1) / d;
               y3 = y1 + a * (y2 - y1) / d
           in if h < 1 / 10 ^ 10 then ReturnedVector (ipts @ [(x3, y3)])
              else
                let ipts = ipts @ [(x3 + h * (y2 - y1) / d, y3 - h * (x2 - x1) / d)];
                    ipts = ipts @ [(x3 - h * (y2 - y1) / d, y3 + h * (x2 - x1) / d)]
                in AddressOfDestroyedLocal ipts)"

section \<open>Intrinsics initialisation\<close>

text \<open>
  The calibration target and its observation are collaborators declared outside
  the file; they are records of what the code reads from them:
  \<^verbatim>\<open>rows()\<close>, \<^verbatim>\<open>cols()\<close>, \<^verbatim>\<open>size()\<close>, \<^verbatim>\<open>point(i)\<close> of the target;
  \<^verbatim>\<open>target()\<close> (a pointer that may be null), \<^verbatim>\<open>imCols()\<close>, \<^verbatim>\<open>imRows()\<close>,
  \<^verbatim>\<open>imageGridPoint(r, c, out)\<close>, \<^verbatim>\<open>imagePoint(i, out)\<close> (a point when they return
  true), \<^verbatim>\<open>getCornersImageFrame\<close> and \<^verbatim>\<open>getCornersTargetFrame\<close> of the observation.
\<close>

record GridCalibrationTargetBase =
  rows :: nat
  cols :: nat
  sizeT :: nat
  point :: "nat \<Rightarrow> vec3"

record GridCalibrationTargetObservation =
  target :: "GridCalibrationTargetBase option"
  imCols :: nat
  imRows :: nat
  imageGridPoint :: "nat \<Rightarrow> nat \<Rightarrow> vec2 option"
  imagePoint :: "nat \<Rightarrow> vec2 option"
  getCornersImageFrame :: "vec2 list"
  getCornersTargetFrame :: "vec3 list"

text \<open>
  The numerical library calls, as parameters: \<^verbatim>\<open>cv::SVD::solveZ\<close> on the
  four-column matrix \<^verbatim>\<open>P\<close> (its solution has four coefficients); \<^verbatim>\<open>cv::solvePnP\<close>
  followed by \<^verbatim>\<open>cv::Rodrigues\<close> and the inversion that yields \<^verbatim>\<open>out_T_t_c\<close>; and
  \<^verbatim>\<open>T_target_camera.inverse() * p\<close> of the transformation type \<open>'t\<close>.
\<close>

record 't numerics =
  solveZ :: "real list list \<Rightarrow> vec4"
  solvePnP :: "vec3 list \<Rightarrow> vec2 list \<Rightarrow> 't"
  inverse_apply :: "'t \<Rightarrow> vec3 \<Rightarrow> vec3"

definition DBL_MAX :: real where
  "DBL_MAX = (2 ^ 53 - 1) * 2 ^ 971"

definition MIN_CORNERS :: nat where
  "MIN_CORNERS = 3"

text \<open>\<^verbatim>\<open>(y - yhat).norm()\<close>.\<close>

definition norm_diff :: "vec2 \<Rightarrow> vec2 \<Rightarrow> real" where
  "norm_diff y yhat = sqrt ((fst y - fst yhat) * (fst y - fst yhat) + (snd y - snd yhat) * (snd y - snd yhat))"

text \<open>
  \<^verbatim>\<open>estimateTransformation\<close> (lines 758-842). The loop keeps, in order, the
  correspondences whose image point back-projects successfully and in front of the
  camera, overwriting the two vectors from the front; they are then cut to the
  number kept. The two corner vectors are parallel by the observation's contract.
\<close>

fun fakePinholeView ::
  "'d distortion_ops \<Rightarrow> 'd PinholeProjection \<Rightarrow> (vec2 \<times> vec3) list \<Rightarrow> (vec3 \<times> vec2) list" where
  "fakePinholeView D c [] = []"
| "fakePinholeView D c ((imagePoint', targetPoint) # rest) =
     (case keypointToEuclidean D c imagePoint' of
        ((x, y, z), ok) \<Rightarrow>
          if ok \<and> z > 0 then (targetPoint, (x / z, y / z)) # fakePinholeView D c rest
          else fakePinholeView D c rest)"

definition estimateTransformation ::
  "'t numerics \<Rightarrow> 'd distortion_ops \<Rightarrow> 'd PinholeProjection \<Rightarrow> GridCalibrationTargetObservation
     \<Rightarrow> 't option" where
  "estimateTransformation E D c obs =
     (let Ms = getCornersImageFrame obs;
          Ps = getCornersTargetFrame obs;
          kept = fakePinholeView D c (zip Ms Ps);
          Ps = map fst kept;
          Ms = map snd kept
      in if length Ps < 4 then None else Some (solvePnP E Ps Ms))"

text \<open>
  \<^verbatim>\<open>computeReprojectionError\<close> (lines 736-756): the loop over the target's point
  indices, carrying \<^verbatim>\<open>outErr\<close> and \<^verbatim>\<open>count\<close>; \<open>tgt\<close> is \<^verbatim>\<open>*obs.target()\<close>.
\<close>

fun reprojectionLoop ::
  "'t numerics \<Rightarrow> 'd distortion_ops \<Rightarrow> 'd PinholeProjection \<Rightarrow> GridCalibrationTargetObservation
     \<Rightarrow> GridCalibrationTargetBase \<Rightarrow> 't \<Rightarrow> nat list \<Rightarrow> real \<times> nat \<Rightarrow> real \<times> nat" where
  "reprojectionLoop E D c obs tgt T [] acc = acc"
| "reprojectionLoop E D c obs tgt T (i # is) (outErr, count) =
     (case imagePoint obs i of
        None \<Rightarrow> reprojectionLoop E D c obs tgt T is (outErr, count)
      | Some y \<Rightarrow>
          (case euclideanToKeypoint D c (inverse_apply E T (point tgt i)) of
             (yhat, ok) \<Rightarrow>
               if ok then reprojectionLoop E D c obs tgt T is (outErr + norm_diff y yhat, count + 1)
               else reprojectionLoop E D c obs tgt T is (outErr, count)))"

definition computeReprojectionError ::
  "'t numerics \<Rightarrow> 'd distortion_ops \<Rightarrow> 'd PinholeProjection \<Rightarrow> GridCalibrationTargetObservation
     \<Rightarrow> GridCalibrationTargetBase \<Rightarrow> 't \<Rightarrow> real \<times> nat" where
  "computeReprojectionError E D c obs tgt T_target_camera =
     reprojectionLoop E D c obs tgt T_target_camera [0..<sizeT tgt] (0, 0)"

text \<open>
  The rows of \<^verbatim>\<open>P\<close> filled for grid row \<open>r\<close> (lines 651-665): one row per column
  whose corner was observed; \<^verbatim>\<open>count\<close> is their number.
\<close>

fun cornerRows ::
  "GridCalibrationTargetObservation \<Rightarrow> 'd PinholeProjection \<Rightarrow> nat \<Rightarrow> nat list \<Rightarrow> real list list" where
  "cornerRows obs c r [] = []"
| "cornerRows obs c r (col # rest) =
     (case imageGridPoint obs r col of
        None \<Rightarrow> cornerRows obs c r rest
      | Some imagePoint' \<Rightarrow>
          (let u = fst imagePoint' - cu c;
               v = snd imagePoint' - cv c
           in [u, v, 0.5, - 0.5 * (square u + square v)] # cornerRows obs c r rest))"

text \<open>
  The variables that live across the iterations of the row loop: the object
  itself, \<^verbatim>\<open>gamma0\<close>, \<^verbatim>\<open>minReprojErr\<close> and \<^verbatim>\<open>success\<close>.
\<close>

record 'd init_state =
  cam :: "'d PinholeProjection"
  gamma0 :: real
  minReprojErr :: real
  success :: bool

text \<open>
  One iteration of the row loop (lines 649-728). Each \<^verbatim>\<open>continue\<close> leaves the
  iteration with the state as it is at that point.

  The guard \<^verbatim>\<open>t < 0\<close> lets \<open>t = 0\<close> through, and there the C++ leaves the real
  numbers: \<^verbatim>\<open>d = sqrt(1.0 / t)\<close> is infinite, so \<^verbatim>\<open>nx\<close> and \<^verbatim>\<open>ny\<close> are infinite or
  NaN. Either \<^verbatim>\<open>hypot(nx, ny)\<close> is infinite and the row is skipped as radial, or
  the comparison with a NaN is false, \<^verbatim>\<open>nz\<close> and \<^verbatim>\<open>gamma\<close> are NaN, \<^verbatim>\<open>_fu\<close> and
  \<^verbatim>\<open>_fv\<close> become NaN, every keypoint that \<^verbatim>\<open>computeReprojectionError\<close> projects
  is NaN and fails \<^verbatim>\<open>isValid\<close>, \<^verbatim>\<open>numReprojected\<close> is 0 and nothing is recorded
  (if the pose estimation does not fail first). In every case \<^verbatim>\<open>gamma0\<close>,
  \<^verbatim>\<open>minReprojErr\<close> and \<^verbatim>\<open>success\<close> keep their values: that is the branch
  \<open>t = 0\<close> below. The NaN focal length has no counterpart in the model, which leaves
  \<open>fu\<close> and \<open>fv\<close> as they were; no later row reads them before writing them, and
  line 730 overwrites them before the function returns. With \<open>t > 0\<close> no division
  by zero is left in the iteration: a row that is not skipped as radial has
  \<open>nz > 0\<close> and \<open>gamma > 0\<close> (lemma \<open>rowCandidate_gamma_pos\<close>).
\<close>

definition rowIteration ::
  "'t numerics \<Rightarrow> 'd distortion_ops \<Rightarrow> GridCalibrationTargetObservation \<Rightarrow> GridCalibrationTargetBase
     \<Rightarrow> nat \<Rightarrow> 'd init_state \<Rightarrow> 'd init_state" where
  "rowIteration E D obs tgt r s =
     (let P = cornerRows obs (cam s) r [0..<cols tgt];
          count = length P
      in if count > MIN_CORNERS then
           (case solveZ E P of
              (C0, C1, C2, C3) \<Rightarrow>
                let t = square C0 + square C1 + C2 * C3
                in if t < 0 then s
                   else if t = 0 then s
                   else
                     let d = sqrt (1 / t);
                         nx = C0 * d;
                         ny = C1 * d
                     in if hypot nx ny > 0.95 then s
                        else
                          let nz = sqrt (1 - square nx - square ny);
                              gamma = \<bar>C2 * d / nz\<bar>;
                              s = s\<lparr>cam := updateTemporaries ((cam s)\<lparr>fu := gamma, fv := gamma\<rparr>)\<rparr>
                          in (case estimateTransformation E D (cam s) obs of
                                None \<Rightarrow> s
                              | Some T_target_camera \<Rightarrow>
                                  (case computeReprojectionError E D (cam s) obs tgt T_target_camera of
                                     (reprojErr, numReprojected) \<Rightarrow>
                                       if numReprojected > MIN_CORNERS then
                                         let avgReprojErr = reprojErr / real numReprojected
                                         in if avgReprojErr < minReprojErr s then
                                              s\<lparr>minReprojErr := avgReprojErr, gamma0 := gamma,
                                                success := True\<rparr>
                                            else s
                                       else s)))
         else s)"

fun rowLoop ::
  "'t numerics \<Rightarrow> 'd distortion_ops \<Rightarrow> GridCalibrationTargetObservation \<Rightarrow> GridCalibrationTargetBase
     \<Rightarrow> nat list \<Rightarrow> 'd init_state \<Rightarrow> 'd init_state" where
  "rowLoop E D obs tgt [] s = s"
| "rowLoop E D obs tgt (r # rest) s = rowLoop E D obs tgt rest (rowIteration E D obs tgt r s)"

text \<open>
  \<^verbatim>\<open>initializeIntrinsics\<close> (lines 610-734). An empty observation vector throws;
  a null target returns false; both happen before the object is written.
\<close>

definition initializeIntrinsics ::
  "'t numerics \<Rightarrow> 'd distortion_ops \<Rightarrow> 'd PinholeProjection \<Rightarrow> GridCalibrationTargetObservation list
     \<Rightarrow> error + (bool \<times> 'd PinholeProjection)" where
  "initializeIntrinsics E D c observations =
     (case observations of
        [] \<Rightarrow> Inl NeedMinOneObservation
      | obs # others \<Rightarrow>
          (case target obs of
             None \<Rightarrow> Inr (False, c)
           | Some tgt \<Rightarrow>
               let c = c\<lparr>cu := (real (imCols obs) - 1) / 2\<rparr>;
                   c = c\<lparr>cv := (real (imRows obs) - 1) / 2\<rparr>;
                   c = c\<lparr>ru := int (imCols obs)\<rparr>;
                   c = c\<lparr>rv := int (imRows obs)\<rparr>;
                   c = c\<lparr>distortion := clear D (distortion c)\<rparr>;
                   s = rowLoop E D obs tgt [0..<rows tgt]
                         \<lparr>cam = c, gamma0 = 0, minReprojErr = DBL_MAX, success = False\<rparr>;
                   c = updateTemporaries ((cam s)\<lparr>fu := gamma0 s, fv := gamma0 s\<rparr>)
               in Inr (success s, c)))"

section \<open>Concrete objects\<close>

text \<open>
  \<^verbatim>\<open>getTestProjection\<close> (lines 563-567), the identity distortion (no lens
  distortion, Jacobians the identity matrix) and a default-constructed
  \<^verbatim>\<open>Eigen::MatrixXd\<close>, which is dynamic and 0 by 0.
\<close>

definition getTestProjection :: "'d \<Rightarrow> 'd PinholeProjection" where
  "getTestProjection d = PinholeProjection_ctor 400 400 320 240 640 480 d"

definition noDistortion :: "unit distortion_ops" where
  "noDistortion =
     \<lparr>distort = (\<lambda>d y. y), distortJ = (\<lambda>d y. (y, ((1, 0), (0, 1)))),
      undistort = (\<lambda>d y. y), undistortJ = (\<lambda>d y. (y, ((1, 0), (0, 1)))),
      clear = (\<lambda>d. d)\<rparr>"

definition MatrixXd :: mat where
  "MatrixXd = \<lparr>dynamic = True, m_rows = 0, m_cols = 0, coeffs = []\<rparr>"

section \<open>Notions used to state the properties\<close>

text \<open>
  The caches are fresh when they hold the values \<^verbatim>\<open>updateTemporaries\<close> computes
  from the current focal lengths.
\<close>

definition cachesFresh :: "'d PinholeProjection \<Rightarrow> bool" where
  "cachesFresh c \<longleftrightarrow> recip_fu c = 1 / fu c \<and> recip_fv c = 1 / fv c \<and> fu_over_fv c = fu c / fv c"

text \<open>
  The object as \<^verbatim>\<open>initializeIntrinsics\<close> has set it up when the row loop starts
  (lines 632-638): principal point at the image centre, resolution from the image,
  distortion cleared.
\<close>

definition preparedCamera ::
  "'d distortion_ops \<Rightarrow> 'd PinholeProjection \<Rightarrow> GridCalibrationTargetObservation \<Rightarrow> 'd PinholeProjection" where
  "preparedCamera D c obs =
     c\<lparr>cu := (real (imCols obs) - 1) / 2, cv := (real (imRows obs) - 1) / 2,
       ru := int (imCols obs), rv := int (imRows obs), distortion := clear D (distortion c)\<rparr>"

text \<open>
  What one grid row yields on its own, read off the loop body (lines 651-710)
  without the best-so-far bookkeeping: the focal length \<^verbatim>\<open>gamma\<close> and the mean
  reprojection error \<^verbatim>\<open>avgReprojErr\<close> of a row that passes every skip condition
  (enough corners, non-negative \<^verbatim>\<open>t\<close>, not radial, pose estimated, enough points
  reprojected), and nothing for a row that is skipped or that computes with
  \<open>t = 0\<close> (see \<open>rowIteration\<close>).
\<close>

definition rowCandidate ::
  "'t numerics \<Rightarrow> 'd distortion_ops \<Rightarrow> GridCalibrationTargetObservation \<Rightarrow> GridCalibrationTargetBase
     \<Rightarrow> 'd PinholeProjection \<Rightarrow> nat \<Rightarrow> (real \<times> real) option" where
  "rowCandidate E D obs tgt c r =
     (let P = cornerRows obs c r [0..<cols tgt]
      in if length P > MIN_CORNERS then
           (case solveZ E P of
              (C0, C1, C2, C3) \<Rightarrow>
                let t = square C0 + square C1 + C2 * C3
                in if t < 0 then None
                   else if t = 0 then None
                   else
                     let d = sqrt (1 / t);
                         nx = C0 * d;
                         ny = C1 * d
                     in if hypot nx ny > 0.95 then None
                        else
                          let nz = sqrt (1 - square nx - square ny);
                              gamma = \<bar>C2 * d / nz\<bar>;
                              c = updateTemporaries (c\<lparr>fu := gamma, fv := gamma\<rparr>)
                          in (case estimateTransformation E D c obs of
                                None \<Rightarrow> None
                              | Some T_target_camera \<Rightarrow>
                                  (case computeReprojectionError E D c obs tgt T_target_camera of
                                     (reprojErr, numReprojected) \<Rightarrow>
                                       if numReprojected > MIN_CORNERS
                                       then Some (gamma, reprojErr / real numReprojected)
                                       else None)))
         else None)"

text \<open>
  The fields of the object that the row loop never writes; a row's candidate
  depends on the object through them only.
\<close>

definition frame :: "'d PinholeProjection \<Rightarrow> real \<times> real \<times> int \<times> int \<times> 'd" where
  "frame c = (cu c, cv c, ru c, rv c, distortion c)"

text \<open>
  The loop invariant after the first \<open>n\<close> rows: \<^verbatim>\<open>success\<close> tells whether some row
  so far had a candidate below \<^verbatim>\<open>DBL_MAX\<close>; if so \<^verbatim>\<open>gamma0\<close> and
  \<^verbatim>\<open>minReprojErr\<close> are the candidate of the first row that attains the least error
  so far, and otherwise they still hold their initial values.
\<close>

definition bestSoFar :: "(nat \<Rightarrow> (real \<times> real) option) \<Rightarrow> nat \<Rightarrow> 'd init_state \<Rightarrow> bool" where
  "bestSoFar cand n s \<longleftrightarrow>
     minReprojErr s \<le> DBL_MAX
   \<and> (success s \<longleftrightarrow> (\<exists>r<n. \<exists>g e. cand r = Some (g, e) \<and> e < DBL_MAX))
   \<and> (\<not> success s \<longrightarrow> gamma0 s = 0 \<and> minReprojErr s = DBL_MAX)
   \<and> (\<forall>r<n. \<forall>g e. cand r = Some (g, e) \<longrightarrow> minReprojErr s \<le> e)
   \<and> (success s \<longrightarrow>
        (\<exists>r<n. cand r = Some (gamma0 s, minReprojErr s) \<and> minReprojErr s < DBL_MAX
           \<and> (\<forall>r'<r. \<forall>g e. cand r' = Some (g, e) \<longrightarrow> minReprojErr s < e)))"

text \<open>
  An observation of a target with two rows of four corners in a 3 by 3 image. The
  last corner of row 0 was not detected, so row 0 has three valid corners and row 1
  has four. The target points lie in the plane \<open>z = 1\<close>, and every detected corner
  is where a camera with focal length 2 and principal point \<open>(1, 1)\<close> sees its
  target point. The numerical routines are stand-ins: a fixed null vector, and a
  pose that is the identity.
\<close>

definition sampleCorner :: "nat \<Rightarrow> vec2 option" where
  "sampleCorner i = (if i = 3 then None else Some (1 + real (i mod 4) / 2, 1 + real (i div 4) / 2))"

definition sampleTarget :: GridCalibrationTargetBase where
  "sampleTarget = \<lparr>rows = 2, cols = 4, sizeT = 8,
      point = (\<lambda>i. (real (i mod 4) / 4, real (i div 4) / 4, 1))\<rparr>"

definition sampleObservation :: GridCalibrationTargetObservation where
  "sampleObservation =
     \<lparr>target = Some sampleTarget, imCols = 3, imRows = 3,
      imageGridPoint = (\<lambda>r c. sampleCorner (r * 4 + c)),
      imagePoint = sampleCorner,
      getCornersImageFrame = [(1, 1), (3 / 2, 1), (2, 1), (1, 3 / 2), (3 / 2, 3 / 2), (2, 3 / 2), (5 / 2, 3 / 2)],
      getCornersTargetFrame = [(0, 0, 1), (1 / 4, 0, 1), (1 / 2, 0, 1),
                               (0, 1 / 4, 1), (1 / 4, 1 / 4, 1), (1 / 2, 1 / 4, 1), (3 / 4, 1 / 4, 1)]\<rparr>"

definition sampleNumerics :: "unit numerics" where
  "sampleNumerics = \<lparr>solveZ = (\<lambda>P. (0, 0, 2, 1 / 2)), solvePnP = (\<lambda>Ps Ms. ()), inverse_apply = (\<lambda>T p. p)\<rparr>"

text \<open>
  A second observation, for the selection among several rows: a target of three
  rows of four points in the plane \<open>z = 1\<close>, seen in a 61 by 81 image by a camera
  of focal length 2, every corner detected. The stand-in for the SVD tells the rows
  apart by the sign of the first corner's \<open>v\<close> and proposes the focal lengths 1,
  3/2 and 5/2 for rows 0, 1 and 2; the pose is the identity. The mean reprojection
  errors are then 35/3, 35/6 and 35/6: the least error is not in the first row, and
  rows 1 and 2 tie. \<open>threeRowCamera g\<close> is the object while a row tests the focal
  length \<open>g\<close>.
\<close>

definition gridX :: "nat \<Rightarrow> real" where
  "gridX col = (if col = 0 then - 9 else if col = 1 then - 5 else if col = 2 then 5 else 9)"

definition gridY :: "nat \<Rightarrow> real" where
  "gridY r = (if r = 0 then - 12 else if r = 1 then 0 else 12)"

definition threeRowTarget :: GridCalibrationTargetBase where
  "threeRowTarget = \<lparr>rows = 3, cols = 4, sizeT = 12,
      point = (\<lambda>i. (gridX (i mod 4), gridY (i div 4), 1))\<rparr>"

definition threeRowCorner :: "nat \<Rightarrow> vec2" where
  "threeRowCorner i = (2 * gridX (i mod 4) + 30, 2 * gridY (i div 4) + 40)"

definition threeRowObservation :: GridCalibrationTargetObservation where
  "threeRowObservation =
     \<lparr>target = Some threeRowTarget, imCols = 61, imRows = 81,
      imageGridPoint = (\<lambda>r col. Some (threeRowCorner (r * 4 + col))),
      imagePoint = (\<lambda>i. Some (threeRowCorner i)),
      getCornersImageFrame = map threeRowCorner [0..<12],
      getCornersTargetFrame = map (point threeRowTarget) [0..<12]\<rparr>"

definition rowwiseNumerics :: "unit numerics" where
  "rowwiseNumerics =
     \<lparr>solveZ = (\<lambda>P. case P of
                      [] \<Rightarrow> (0, 0, 1, 1)
                    | row # rest \<Rightarrow>
                        if row ! 1 < 0 then (0, 0, 1, 1)
                        else if row ! 1 = 0 then (0, 0, 3 / 2, 2 / 3)
                        else (0, 0, 5 / 2, 2 / 5)),
      solvePnP = (\<lambda>Ps Ms. ()),
      inverse_apply = (\<lambda>T p. p)\<rparr>"

definition threeRowCamera :: "real \<Rightarrow> unit PinholeProjection" where
  "threeRowCamera g = updateTemporaries
     ((preparedCamera noDistortion (getTestProjection ()) threeRowObservation)\<lparr>fu := g, fv := g\<rparr>)"

section \<open>Properties of the projection functions\<close>

lemma getTestProjection_fields:
  "fu (getTestProjection d) = 400" "fv (getTestProjection d) = 400"
  "cu (getTestProjection d) = 320" "cv (getTestProjection d) = 240"
  "ru (getTestProjection d) = 640" "rv (getTestProjection d) = 480"
  "recip_fu (getTestProjection d) = 1 / 400" "recip_fv (getTestProjection d) = 1 / 400"
  "fu_over_fv (getTestProjection d) = 1" "distortion (getTestProjection d) = d"
  by (simp_all add: getTestProjection_def PinholeProjection_ctor_def updateTemporaries_def)

lemma replicate2: "replicate 2 x = [x, x]"
  by (simp add: numeral_2_eq_2)
lemma replicate3: "replicate 3 x = [x, x, x]"
  by (simp add: numeral_3_eq_3)
lemma replicate4: "replicate 4 x = [x, x, x, x]"
  by (simp add: numeral_Bit0 replicate_add)
lemma take2: "take 2 (a # b # xs) = [a, b]"
  by (simp add: numeral_2_eq_2)
lemma drop3: "drop 3 (a # b # c # xs) = xs"
  by (simp add: numeral_3_eq_3)
lemma drop2: "drop 2 (a # b # xs) = xs"
  by (simp add: numeral_2_eq_2)

lemma resize_ok:
  "dynamic m \<or> (m_rows m = r \<and> m_cols m = c) \<Longrightarrow>
   \<exists>m'. resize r c m = Inr m' \<and> m_rows m' = r \<and> m_cols m' = c \<and> dynamic m' = dynamic m"
  by (auto simp: resize_def)

lemma euclideanToKeypointJ_closed:
  assumes "dynamic J0 \<or> (m_rows J0 = 2 \<and> m_cols J0 = 3)"
  shows "\<exists>J. euclideanToKeypointJ D c (x, y, z) J0 =
           (let r = distortJ D (distortion c) (x * (1 / z), y * (1 / z));
                k = (fu c * fst (fst r) + cu c, fv c * snd (fst r) + cv c)
            in Inr (k, J, isValid c k \<and> z > 0))
         \<and> m_rows J = 2 \<and> m_cols J = 3 \<and> dynamic J = dynamic J0
         \<and> coeffs J =
             (let Jd = snd (distortJ D (distortion c) (x * (1 / z), y * (1 / z))); rz = 1 / z
              in [[fu c * fst (fst Jd) * rz, fu c * snd (fst Jd) * rz,
                   - fu c * (x * fst (fst Jd) + y * snd (fst Jd)) * (rz * rz)],
                  [fv c * fst (snd Jd) * rz, fv c * snd (snd Jd) * rz,
                   - fv c * (x * fst (snd Jd) + y * snd (snd Jd)) * (rz * rz)]])"
proof -
  from resize_ok[OF assms] obtain m' where m': "resize 2 3 J0 = Inr m'" "m_rows m' = 2" "m_cols m' = 3" "dynamic m' = dynamic J0" by blast
  show ?thesis
    by (simp add: euclideanToKeypointJ_def m' setZero_def put_def Let_def replicate2 replicate3 split: prod.splits)
qed

text \<open>
  C1. For a point \<open>p\<close> with \<open>p.z \<noteq> 0\<close>, the keypoint written by
  \<^verbatim>\<open>euclideanToKeypoint\<close> is the distorted normalised point \<open>(p.x / p.z, p.y / p.z)\<close>
  scaled by \<open>(fu, fv)\<close> and offset by \<open>(cu, cv)\<close>; the function returns true exactly
  when that keypoint is valid and \<open>p.z > 0\<close>. The keypoint is the same value whether
  the status is true or false.
\<close>

theorem euclideanToKeypoint_result:
  assumes "p2 \<noteq> 0"
  shows "fst (euclideanToKeypoint D c (p0, p1, p2)) =
           (let y = distort D (distortion c) (p0 / p2, p1 / p2)
            in (fu c * fst y + cu c, fv c * snd y + cv c))
         \<and> (snd (euclideanToKeypoint D c (p0, p1, p2)) \<longleftrightarrow>
              isValid c (fst (euclideanToKeypoint D c (p0, p1, p2))) \<and> p2 > 0)"
  by (simp add: euclideanToKeypoint_def Let_def divide_inverse)

theorem euclideanToKeypoint_result_witness:
  "fst (euclideanToKeypoint noDistortion (getTestProjection ()) (1, 1, - 2)) = (120, 40)
   \<and> \<not> snd (euclideanToKeypoint noDistortion (getTestProjection ()) (1, 1, - 2))
   \<and> isValid (getTestProjection ()) (120, 40)"
  using euclideanToKeypoint_result [of "- 2" noDistortion "getTestProjection ()" 1 1]
  by (simp add: getTestProjection_fields noDistortion_def isValid_def Let_def)

text \<open>
  C2. Without a Jacobian, \<^verbatim>\<open>homogeneousToKeypoint\<close> projects \<open>-ph.xyz\<close> when
  \<open>ph.w < 0\<close> and \<open>ph.xyz\<close> otherwise. With a Jacobian, whatever the sign of \<open>ph.w\<close>,
  the keypoint and the status are those of \<^verbatim>\<open>euclideanToKeypoint\<close> on \<open>ph.xyz\<close>, and
  the 2 by 4 Jacobian is that function's 2 by 3 Jacobian followed by a zero column:
  nothing is negated. The output matrices are of the types the static assertions
  admit (dynamic, or of the fixed size).
\<close>

theorem homogeneousToKeypoint_sign:
  assumes "dynamic outJp \<or> (m_rows outJp = 2 \<and> m_cols outJp = 4)"
    and "dynamic J0 \<or> (m_rows J0 = 2 \<and> m_cols J0 = 3)"
  shows "homogeneousToKeypoint D c (x, y, z, w) =
           (if w < 0 then euclideanToKeypoint D c (- x, - y, - z)
            else euclideanToKeypoint D c (x, y, z))
         \<and> (\<exists>k J ok J'.
               euclideanToKeypointJ D c (x, y, z) J0 = Inr (k, J, ok)
             \<and> homogeneousToKeypointJ D c (x, y, z, w) outJp = Inr (k, J', ok)
             \<and> m_rows J' = 2 \<and> m_cols J' = 4
             \<and> coeffs J' = map (\<lambda>row. row @ [0]) (coeffs J))"
proof -
  have first: "homogeneousToKeypoint D c (x, y, z, w) =
           (if w < 0 then euclideanToKeypoint D c (- x, - y, - z)
            else euclideanToKeypoint D c (x, y, z))"
    by (simp add: homogeneousToKeypoint_def head3_def neg3_def)
  from resize_ok[OF assms(1)] obtain Jr where Jr: "resize 2 4 outJp = Inr Jr"
    "m_rows Jr = 2" "m_cols Jr = 4" by blast
  define B where "B = \<lparr>dynamic = False, m_rows = 2, m_cols = 3, coeffs = map (take 3) (take 2 (coeffs (setZero Jr)))\<rparr>"
  have tl: "topLeftCorner 2 3 (setZero Jr) = Inr B"
    by (simp add: topLeftCorner_def setZero_def Jr B_def)
  have Badm: "dynamic B \<or> (m_rows B = 2 \<and> m_cols B = 3)" by (simp add: B_def)
  define k where "k = (fu c * fst (fst (distortJ D (distortion c) (x * (1 / z), y * (1 / z)))) + cu c,
                       fv c * snd (fst (distortJ D (distortion c) (x * (1 / z), y * (1 / z)))) + cv c)"
  define ok where "ok = (isValid c k \<and> z > 0)"
  from euclideanToKeypointJ_closed[OF assms(2), of D c x y z] obtain J where
    J: "euclideanToKeypointJ D c (x, y, z) J0 = Inr (k, J, ok)"
     and Jc: "coeffs J =
             (let Jd = snd (distortJ D (distortion c) (x * (1 / z), y * (1 / z))); rz = 1 / z
              in [[fu c * fst (fst Jd) * rz, fu c * snd (fst Jd) * rz,
                   - fu c * (x * fst (fst Jd) + y * snd (fst Jd)) * (rz * rz)],
                  [fv c * fst (snd Jd) * rz, fv c * snd (snd Jd) * rz,
                   - fv c * (x * fst (snd Jd) + y * snd (snd Jd)) * (rz * rz)]])"
    unfolding k_def ok_def Let_def by blast
  from euclideanToKeypointJ_closed[OF Badm, of D c x y z] obtain JB where
    JB: "euclideanToKeypointJ D c (x, y, z) B = Inr (k, JB, ok)"
     and JBd: "m_rows JB = 2" "m_cols JB = 3"
     and JBc: "coeffs JB = coeffs J"
    unfolding Jc k_def ok_def Let_def by blast
  have h: "homogeneousToKeypointJ D c (x, y, z, w) outJp =
      Inr (k, assignTopLeftCorner JB (setZero Jr), ok)"
    by (simp add: homogeneousToKeypointJ_def returnThen_def projectIntoBlock_def Jr tl head3_def JB)
  have dims: "m_rows (assignTopLeftCorner JB (setZero Jr)) = 2" "m_cols (assignTopLeftCorner JB (setZero Jr)) = 4"
    by (simp_all add: assignTopLeftCorner_def setZero_def Jr)
  have co: "coeffs (assignTopLeftCorner JB (setZero Jr)) = map (\<lambda>row. row @ [0]) (coeffs J)"
    by (simp add: assignTopLeftCorner_def setZero_def Jr JBd JBc Jc Let_def replicate2 replicate4 take2 drop3 drop2)
  show ?thesis using first J h dims co by blast
qed

theorem homogeneousToKeypoint_sign_witness:
  "homogeneousToKeypoint noDistortion (getTestProjection ()) (1, 1, 2, - 1) = ((520, 440), False)
   \<and> (\<exists>J'. homogeneousToKeypointJ noDistortion (getTestProjection ()) (1, 1, 2, - 1) MatrixXd
             = Inr ((520, 440), J', True)
          \<and> coeffs J' = [[200, 0, - 100, 0], [0, 200, - 100, 0]])"
proof -
  have a: "dynamic MatrixXd \<or> (m_rows MatrixXd = 2 \<and> m_cols MatrixXd = 4)"
    and b: "dynamic MatrixXd \<or> (m_rows MatrixXd = 2 \<and> m_cols MatrixXd = 3)"
    by (simp_all add: MatrixXd_def)
  from euclideanToKeypointJ_closed[OF b, of noDistortion "getTestProjection ()" 1 1 2]
  obtain J where J: "euclideanToKeypointJ noDistortion (getTestProjection ()) (1, 1, 2) MatrixXd = Inr ((520, 440), J, True)"
    "coeffs J = [[200, 0, - 100], [0, 200, - 100]]"
    by (auto simp: getTestProjection_fields noDistortion_def isValid_def Let_def)
  have e: "euclideanToKeypoint noDistortion (getTestProjection ()) (- 1, - 1, - 2) = ((520, 440), False)"
    by (simp add: euclideanToKeypoint_def getTestProjection_fields noDistortion_def isValid_def Let_def)
  from homogeneousToKeypoint_sign [OF a b, of noDistortion "getTestProjection ()" 1 1 2 "- 1"]
  show ?thesis
    by (auto simp: J e)
qed

text \<open>
  For comparison, the statement that follows the return, run on the same input
  (\<open>w < 0\<close>) and the zeroed 2 by 4 matrix: it would project \<open>-ph.xyz\<close>, which gives
  the same keypoint and, after the negation, the same Jacobian, but the status
  false, since \<open>-ph.z\<close> is not positive.
\<close>

lemma signAwareBranch_sample:
  "\<exists>J'. signAwareBranch noDistortion (getTestProjection ()) (1, 1, 2, - 1)
           \<lparr>dynamic = True, m_rows = 2, m_cols = 4, coeffs = [[0, 0, 0, 0], [0, 0, 0, 0]]\<rparr>
         = Inr ((520, 440), J', False)
       \<and> coeffs J' = [[200, 0, - 100, 0], [0, 200, - 100, 0]]"
proof -
  define Z where "Z = \<lparr>dynamic = True, m_rows = 2, m_cols = 4, coeffs = [[0, 0, 0, 0], [0, 0, 0, 0::real]]\<rparr>"
  define B where "B = \<lparr>dynamic = False, m_rows = 2, m_cols = 3, coeffs = [[0, 0, 0], [0, 0, 0::real]]\<rparr>"
  have tl: "topLeftCorner 2 3 Z = Inr B"
    by (simp add: topLeftCorner_def B_def Z_def take2 numeral_3_eq_3)
  have Badm: "dynamic B \<or> (m_rows B = 2 \<and> m_cols B = 3)"
    by (simp add: B_def)
  from euclideanToKeypointJ_closed[OF Badm, of noDistortion "getTestProjection ()" "- 1" "- 1" "- 2"]
  obtain JB where JB:
    "euclideanToKeypointJ noDistortion (getTestProjection ()) (- 1, - 1, - 2) B = Inr ((520, 440), JB, False)"
    "m_rows JB = 2" "m_cols JB = 3" "coeffs JB = [[- 200, 0, 100], [0, - 200, 100]]"
    by (auto simp: getTestProjection_fields noDistortion_def isValid_def Let_def)
  have "\<exists>J'. signAwareBranch noDistortion (getTestProjection ()) (1, 1, 2, - 1) Z
         = Inr ((520, 440), J', False)
       \<and> coeffs J' = [[200, 0, - 100, 0], [0, 200, - 100, 0]]"
    by (simp add: signAwareBranch_def projectIntoBlock_def head3_def neg3_def tl JB)
       (simp add: negate_def assignTopLeftCorner_def JB Z_def take2 drop3 drop2)
  then show ?thesis by (simp add: Z_def)
qed

text \<open>
  C4. A keypoint is valid exactly when \<open>0 \<le> x < ru\<close> and \<open>0 \<le> y < rv\<close>, the upper
  bound being exclusive. With a positive resolution the keypoints \<open>(0, 0)\<close> and
  \<open>(ru - 1, rv - 1)\<close> are valid, so is the principal point \<open>(cu, cv)\<close> when it lies
  in range, and \<open>(-1, 0)\<close>, \<open>(-1, -1)\<close> and \<open>(ru, rv)\<close> are invalid.
\<close>

theorem isValid_exclusive_upper_bound:
  "(isValid c (x, y) \<longleftrightarrow> 0 \<le> x \<and> x < real_of_int (ru c) \<and> 0 \<le> y \<and> y < real_of_int (rv c))
   \<and> (0 < ru c \<and> 0 < rv c \<longrightarrow>
        isValid c (0, 0) \<and> isValid c (real_of_int (ru c) - 1, real_of_int (rv c) - 1))
   \<and> (0 \<le> cu c \<and> cu c < real_of_int (ru c) \<and> 0 \<le> cv c \<and> cv c < real_of_int (rv c) \<longrightarrow>
        isValid c (cu c, cv c))
   \<and> \<not> isValid c (- 1, 0) \<and> \<not> isValid c (- 1, - 1)
   \<and> \<not> isValid c (real_of_int (ru c), real_of_int (rv c))"
  by (auto simp: isValid_def)

theorem isValid_exclusive_upper_bound_witness:
  "isValid (getTestProjection ()) (0, 0) \<and> isValid (getTestProjection ()) (639, 479)
   \<and> isValid (getTestProjection ()) (320, 240) \<and> \<not> isValid (getTestProjection ()) (640, 480)
   \<and> \<not> isValid (getTestProjection ()) (- 1, 0) \<and> \<not> isValid (getTestProjection ()) (- 1, - 1)
   \<and> isValid (getTestProjection ()) (639.5, 479.5)"
  using isValid_exclusive_upper_bound [of "getTestProjection ()" "639.5" "479.5"]
  by (simp add: getTestProjection_fields)

text \<open>
  C5. \<^verbatim>\<open>keypointToEuclidean\<close> writes the point obtained from the keypoint by
  subtracting the principal point, dividing by the focal lengths and undistorting,
  with \<open>z = 1\<close>; its return value is \<^verbatim>\<open>isValid\<close> of the keypoint it was given.
\<close>

theorem keypointToEuclidean_result:
  "fst (keypointToEuclidean D c (k0, k1)) =
     (let y = undistort D (distortion c) ((k0 - cu c) / fu c, (k1 - cv c) / fv c)
      in (fst y, snd y, 1))
   \<and> snd (keypointToEuclidean D c (k0, k1)) = isValid c (k0, k1)"
  by (simp add: keypointToEuclidean_def Let_def)

section \<open>Properties of the intrinsics initialisation\<close>

lemma frame_focal:
  "frame c = frame c' \<Longrightarrow>
   updateTemporaries (c\<lparr>fu := g, fv := g\<rparr>) = updateTemporaries (c'\<lparr>fu := g, fv := g\<rparr>)"
  by (cases c, cases c') (simp add: frame_def updateTemporaries_def)

lemma frame_updateTemporaries_focal [simp]:
  "frame (updateTemporaries (c\<lparr>fu := g, fv := h\<rparr>)) = frame c"
  by (simp add: frame_def updateTemporaries_def)

lemma cornerRows_frame:
  "frame c = frame c' \<Longrightarrow> cornerRows obs c r cs = cornerRows obs c' r cs"
  by (induction cs) (auto simp: frame_def Let_def split: option.splits)

lemma rowCandidate_frame:
  assumes "frame c = frame c'"
  shows "rowCandidate E D obs tgt c r = rowCandidate E D obs tgt c' r"
  unfolding rowCandidate_def cornerRows_frame[OF assms] frame_focal[OF assms] ..

text \<open>
  A row with a candidate has a positive focal length: with \<open>t > 0\<close> the squared
  length of \<open>(nx, ny)\<close> is \<open>(C0\<^sup>2 + C1\<^sup>2) / t\<close>, at most \<open>0.95\<^sup>2\<close> for a row
  that is not radial, so \<open>nz > 0\<close>; and \<open>C2 = 0\<close> would make that length 1. The
  projections inside the loop therefore never divide by a zero focal length.
\<close>

lemma square_sqrt: "0 \<le> y \<Longrightarrow> square (sqrt y) = y"
  by (simp add: square_def)

lemma hypot_scaled:
  assumes "0 < t"
  shows "square (hypot (C0 * sqrt (1 / t)) (C1 * sqrt (1 / t))) = (square C0 + square C1) / t"
proof -
  have d2: "sqrt (1 / t) * sqrt (1 / t) = 1 / t"
    using assms by simp
  have "square (C0 * sqrt (1 / t)) + square (C1 * sqrt (1 / t))
      = (square C0 + square C1) * (sqrt (1 / t) * sqrt (1 / t))"
    by (simp add: square_def algebra_simps)
  also have "\<dots> = (square C0 + square C1) / t"
    unfolding d2 by simp
  finally have eq: "square (C0 * sqrt (1 / t)) + square (C1 * sqrt (1 / t)) = (square C0 + square C1) / t" .
  have nn: "0 \<le> square (C0 * sqrt (1 / t)) + square (C1 * sqrt (1 / t))"
    by (simp add: square_def)
  show ?thesis
    unfolding hypot_def square_sqrt[OF nn] by (rule eq)
qed

lemma not_radial_gamma_pos:
  assumes t: "0 < t" and tdef: "t = square C0 + square C1 + C2 * C3"
    and nr: "\<not> hypot (C0 * sqrt (1 / t)) (C1 * sqrt (1 / t)) > 0.95"
  shows "0 < \<bar>C2 * sqrt (1 / t) / sqrt (1 - square (C0 * sqrt (1 / t)) - square (C1 * sqrt (1 / t)))\<bar>"
proof -
  define nx where "nx = C0 * sqrt (1 / t)"
  define ny where "ny = C1 * sqrt (1 / t)"
  define q where "q = (square C0 + square C1) / t"
  have h0: "0 \<le> hypot nx ny" by (simp add: hypot_def square_def)
  have hle: "hypot nx ny \<le> 19 / 20" using nr by (simp add: nx_def ny_def)
  have "hypot nx ny * hypot nx ny \<le> (19 / 20) * (19 / 20)"
    using h0 hle by (intro mult_mono) simp_all
  then have "square (hypot nx ny) \<le> 361 / 400"
    by (simp add: square_def)
  then have sq: "q \<le> 361 / 400"
    using hypot_scaled[OF t, of C0 C1] by (simp add: nx_def ny_def q_def)
  have nn: "0 \<le> square nx + square ny" by (simp add: square_def)
  have sum: "square nx + square ny = q"
    using hypot_scaled[OF t, of C0 C1] unfolding hypot_def nx_def[symmetric] ny_def[symmetric] q_def[symmetric]
    by (simp only: square_sqrt[OF nn])
  have "0 < 1 - square nx - square ny"
    using sum sq by linarith
  then have nzpos: "0 < sqrt (1 - square nx - square ny)"
    by (simp only: real_sqrt_gt_0_iff)
  have "C2 \<noteq> 0"
  proof
    assume "C2 = 0"
    then have "q = 1" using tdef t by (simp add: q_def)
    with sq show False by simp
  qed
  moreover have "0 < sqrt (1 / t)" using t by simp
  ultimately have "0 < \<bar>C2 * sqrt (1 / t) / sqrt (1 - square nx - square ny)\<bar>"
    using nzpos by simp
  then show ?thesis by (simp only: nx_def ny_def)
qed

lemma rowCandidate_gamma_pos:
  assumes "rowCandidate E D obs tgt c r = Some (g, e)"
  shows "0 < g"
proof -
  obtain C0 C1 C2 C3 where C: "solveZ E (cornerRows obs c r [0..<cols tgt]) = (C0, C1, C2, C3)"
    by (cases "solveZ E (cornerRows obs c r [0..<cols tgt])") auto
  define t where "t = square C0 + square C1 + C2 * C3"
  from assms have t: "0 < t"
    unfolding rowCandidate_def Let_def C t_def
    by (auto split: if_splits)
  from assms have nr: "\<not> hypot (C0 * sqrt (1 / t)) (C1 * sqrt (1 / t)) > 0.95"
    unfolding rowCandidate_def Let_def C t_def
    by (simp split: if_splits)
  from assms have g: "g = \<bar>C2 * sqrt (1 / t) / sqrt (1 - square (C0 * sqrt (1 / t)) - square (C1 * sqrt (1 / t)))\<bar>"
    unfolding rowCandidate_def Let_def C t_def
    by (simp split: if_splits option.splits prod.splits)
  show ?thesis unfolding g by (rule not_radial_gamma_pos[OF t t_def nr])
qed

text \<open>The row whose SVD solution has \<open>t = 0\<close> changes nothing and has no candidate.\<close>

lemma rowIteration_t_zero:
  assumes "solveZ E (cornerRows obs (cam s) r [0..<cols tgt]) = (C0, C1, C2, C3)"
    and "square C0 + square C1 + C2 * C3 = 0"
  shows "rowIteration E D obs tgt r s = s \<and> rowCandidate E D obs tgt (cam s) r = None"
  using assms by (simp add: rowIteration_def rowCandidate_def Let_def)

text \<open>What one iteration does, in terms of the row's candidate.\<close>

lemma rowIteration_frame: "frame (cam (rowIteration E D obs tgt r s)) = frame (cam s)"
  unfolding rowIteration_def Let_def
  by (simp split: prod.splits option.splits)

lemma rowIteration_None:
  assumes "rowCandidate E D obs tgt (cam s) r = None"
  shows "gamma0 (rowIteration E D obs tgt r s) = gamma0 s
       \<and> minReprojErr (rowIteration E D obs tgt r s) = minReprojErr s
       \<and> success (rowIteration E D obs tgt r s) = success s"
  using assms
  unfolding rowIteration_def rowCandidate_def Let_def
  by (auto split: prod.splits if_splits option.splits)

lemma rowIteration_Some:
  assumes "rowCandidate E D obs tgt (cam s) r = Some (g, e)"
  shows "(e < minReprojErr s \<longrightarrow>
            gamma0 (rowIteration E D obs tgt r s) = g
          \<and> minReprojErr (rowIteration E D obs tgt r s) = e
          \<and> success (rowIteration E D obs tgt r s))
       \<and> (\<not> e < minReprojErr s \<longrightarrow>
            gamma0 (rowIteration E D obs tgt r s) = gamma0 s
          \<and> minReprojErr (rowIteration E D obs tgt r s) = minReprojErr s
          \<and> success (rowIteration E D obs tgt r s) = success s)"
  using assms
  unfolding rowIteration_def rowCandidate_def Let_def
  by (auto split: prod.splits if_splits option.splits)


lemma bestSoFar_init:
  "bestSoFar cand 0 \<lparr>cam = c0, gamma0 = 0, minReprojErr = DBL_MAX, success = False\<rparr>"
  by (simp add: bestSoFar_def)

lemma bestSoFar_skip:
  assumes "bestSoFar cand n s" and "cand n = None"
    and "gamma0 s' = gamma0 s" "minReprojErr s' = minReprojErr s" "success s' = success s"
  shows "bestSoFar cand (Suc n) s'"
  using assms unfolding bestSoFar_def
  by (auto simp: less_Suc_eq)

lemma bestSoFar_keep:
  assumes "bestSoFar cand n s" and "cand n = Some (g, e)" and "\<not> e < minReprojErr s"
    and "gamma0 s' = gamma0 s" "minReprojErr s' = minReprojErr s" "success s' = success s"
  shows "bestSoFar cand (Suc n) s'"
proof -
  have le: "minReprojErr s \<le> e" using assms(3) by simp
  have succ: "e < DBL_MAX \<Longrightarrow> success s"
    using assms(1) le unfolding bestSoFar_def by force
  show ?thesis
    using assms(1,2,4,5,6) le succ unfolding bestSoFar_def
    apply (intro conjI)
        apply simp
       apply (auto simp: less_Suc_eq)[1]
      apply simp
     apply (auto simp: less_Suc_eq)[1]
    apply (auto simp: less_Suc_eq)[1]
    done
qed

lemma bestSoFar_record:
  assumes "bestSoFar cand n s" and "cand n = Some (g, e)" and "e < minReprojErr s"
    and "gamma0 s' = g" "minReprojErr s' = e" "success s'"
  shows "bestSoFar cand (Suc n) s'"
proof -
  have lt: "e < DBL_MAX" using assms(1,3) unfolding bestSoFar_def by simp
  have old: "\<forall>r<n. \<forall>g' e'. cand r = Some (g', e') \<longrightarrow> e < e'"
    using assms(1,3) unfolding bestSoFar_def by force
  show ?thesis
    unfolding bestSoFar_def
  proof (intro conjI)
    show "minReprojErr s' \<le> DBL_MAX" using lt assms(5) by simp
    show "success s' = (\<exists>r<Suc n. \<exists>g e. cand r = Some (g, e) \<and> e < DBL_MAX)"
      using assms(2,6) lt by auto
    show "\<not> success s' \<longrightarrow> gamma0 s' = 0 \<and> minReprojErr s' = DBL_MAX"
      using assms(6) by simp
    show "\<forall>r<Suc n. \<forall>g e. cand r = Some (g, e) \<longrightarrow> minReprojErr s' \<le> e"
      using old assms(2,5) by (auto simp: less_Suc_eq)
    show "success s' \<longrightarrow>
        (\<exists>r<Suc n. cand r = Some (gamma0 s', minReprojErr s') \<and> minReprojErr s' < DBL_MAX
           \<and> (\<forall>r'<r. \<forall>g e. cand r' = Some (g, e) \<longrightarrow> minReprojErr s' < e))"
      using old assms(2,4,5) lt by (intro impI exI[of _ n]) simp
  qed
qed

lemma rowLoop_append:
  "rowLoop E D obs tgt (xs @ ys) s = rowLoop E D obs tgt ys (rowLoop E D obs tgt xs s)"
  by (induction xs arbitrary: s) simp_all

lemma rowLoop_invariant:
  "frame (cam (rowLoop E D obs tgt [0..<n]
       \<lparr>cam = c0, gamma0 = 0, minReprojErr = DBL_MAX, success = False\<rparr>)) = frame c0
   \<and> bestSoFar (rowCandidate E D obs tgt c0) n
       (rowLoop E D obs tgt [0..<n] \<lparr>cam = c0, gamma0 = 0, minReprojErr = DBL_MAX, success = False\<rparr>)"
proof (induction n)
  case 0
  show ?case by (simp add: bestSoFar_init)
next
  case (Suc n)
  define s where "s = rowLoop E D obs tgt [0..<n]
       \<lparr>cam = c0, gamma0 = 0, minReprojErr = DBL_MAX, success = False\<rparr>"
  define s' where "s' = rowIteration E D obs tgt n s"
  have fr: "frame (cam s) = frame c0" and inv: "bestSoFar (rowCandidate E D obs tgt c0) n s"
    using Suc.IH by (simp_all add: s_def)
  have loop: "rowLoop E D obs tgt [0..<Suc n]
       \<lparr>cam = c0, gamma0 = 0, minReprojErr = DBL_MAX, success = False\<rparr> = s'"
    by (simp add: rowLoop_append s_def s'_def)
  have cand: "rowCandidate E D obs tgt (cam s) n = rowCandidate E D obs tgt c0 n"
    by (rule rowCandidate_frame[OF fr])
  have fr': "frame (cam s') = frame c0"
    by (simp add: s'_def rowIteration_frame fr)
  have inv': "bestSoFar (rowCandidate E D obs tgt c0) (Suc n) s'"
  proof (cases "rowCandidate E D obs tgt c0 n")
    case None
    with rowIteration_None[of E D obs tgt s n] cand inv show ?thesis
      by (intro bestSoFar_skip[of _ n s]) (simp_all add: s'_def)
  next
    case (Some ge)
    obtain g e where ge: "ge = (g, e)" by (cases ge)
    have c: "rowCandidate E D obs tgt (cam s) n = Some (g, e)" using Some ge cand by simp
    show ?thesis
    proof (cases "e < minReprojErr s")
      case True
      with rowIteration_Some[OF c] inv Some ge show ?thesis
        by (intro bestSoFar_record[of _ n s g e]) (simp_all add: s'_def)
    next
      case False
      with rowIteration_Some[OF c] inv Some ge show ?thesis
        by (intro bestSoFar_keep[of _ n s g e]) (simp_all add: s'_def)
    qed
  qed
  show ?case unfolding loop using fr' inv' by simp
qed


lemma upt_0_4: "[0..<4] = [0, 1, 2, 3]"
  by code_simp
lemma upt_0_8: "[0..<8] = [0, 1, 2, 3, 4, 5, 6, 7]"
  by code_simp

text \<open>
  The two rows of \<open>sampleObservation\<close>: row 0, with three corners, has no
  candidate; row 1, with four, is processed and has one.
\<close>

lemma sample_prepared:
  "cu (preparedCamera noDistortion (getTestProjection ()) sampleObservation) = 1"
  "cv (preparedCamera noDistortion (getTestProjection ()) sampleObservation) = 1"
  "ru (preparedCamera noDistortion (getTestProjection ()) sampleObservation) = 3"
  "rv (preparedCamera noDistortion (getTestProjection ()) sampleObservation) = 3"
  by (simp_all add: preparedCamera_def sampleObservation_def)

lemma sample_row0:
  "rowCandidate sampleNumerics noDistortion sampleObservation sampleTarget
     (preparedCamera noDistortion (getTestProjection ()) sampleObservation) 0 = None"
  by (simp add: rowCandidate_def sampleObservation_def sampleTarget_def sampleCorner_def
      upt_0_4 MIN_CORNERS_def Let_def)

lemma sample_row1:
  "rowCandidate sampleNumerics noDistortion sampleObservation sampleTarget
     (preparedCamera noDistortion (getTestProjection ()) sampleObservation) 1 = Some (2, 0)"
  apply (simp add: rowCandidate_def upt_0_4 MIN_CORNERS_def Let_def sampleTarget_def)
  apply (simp add: sampleObservation_def sampleCorner_def sampleNumerics_def square_def hypot_def)
  apply (simp add: estimateTransformation_def computeReprojectionError_def sample_prepared
       keypointToEuclidean_def euclideanToKeypoint_def isValid_def noDistortion_def updateTemporaries_def
       preparedCamera_def upt_0_8 norm_diff_def Let_def sampleCorner_def sampleObservation_def
       sampleNumerics_def sampleTarget_def MIN_CORNERS_def getTestProjection_fields)
  done


lemma initializeIntrinsics_no_target:
  "target obs = None \<Longrightarrow> initializeIntrinsics E D c (obs # others) = Inr (False, c)"
  by (simp add: initializeIntrinsics_def)

lemma initializeIntrinsics_with_target:
  assumes "target obs = Some tgt"
  shows "initializeIntrinsics E D c (obs # others) =
     (let s = rowLoop E D obs tgt [0..<rows tgt]
                \<lparr>cam = preparedCamera D c obs, gamma0 = 0, minReprojErr = DBL_MAX, success = False\<rparr>
      in Inr (success s, updateTemporaries ((cam s)\<lparr>fu := gamma0 s, fv := gamma0 s\<rparr>)))"
  using assms by (simp add: initializeIntrinsics_def preparedCamera_def Let_def)

lemma length_cornerRows:
  "length (cornerRows obs c r cs) = length (filter (\<lambda>col. imageGridPoint obs r col \<noteq> None) cs)"
  by (induction cs) (auto simp: Let_def split: option.splits)

lemma rowIteration_few_corners:
  "length (cornerRows obs (cam s) r [0..<cols tgt]) \<le> 3 \<Longrightarrow> rowIteration E D obs tgt r s = s"
  by (simp add: rowIteration_def MIN_CORNERS_def Let_def)

text \<open>
  C3. A row should be skipped exactly when it has fewer than 3 valid corners, and
  processed when it has at least 3. The guard of the loop is
  \<^verbatim>\<open>count > MIN_CORNERS\<close> with \<^verbatim>\<open>MIN_CORNERS = 3\<close>: row 0 of the observation
  \<open>sampleObservation\<close> has exactly three valid corners, and the iteration leaves
  the state as it was whatever the SVD and the pose solver would return; the row
  yields no candidate.
\<close>

theorem row_with_three_corners_is_skipped:
  "length (cornerRows sampleObservation (cam s) 0 [0..<cols sampleTarget]) = 3
   \<and> rowIteration E D sampleObservation sampleTarget 0 s = s
   \<and> rowCandidate E D sampleObservation sampleTarget (cam s) 0 = None"
proof -
  have n: "length (cornerRows sampleObservation (cam s) 0 [0..<cols sampleTarget]) = 3"
    by (simp add: sampleObservation_def sampleTarget_def upt_0_4 sampleCorner_def Let_def)
  then have "rowIteration E D sampleObservation sampleTarget 0 s = s"
    by (intro rowIteration_few_corners) simp
  moreover have "rowCandidate E D sampleObservation sampleTarget (cam s) 0 = None"
    using n by (simp add: rowCandidate_def MIN_CORNERS_def Let_def)
  ultimately show ?thesis using n by simp
qed

text \<open>
  C6. With a null target the function returns false and leaves the object alone.
  With a target it always returns; it returns true exactly when some row passes
  every skip condition with a mean error below the initial \<^verbatim>\<open>DBL_MAX\<close>, that is,
  when some row records a best candidate. On return \<open>fu\<close> and \<open>fv\<close> are equal; after
  success they are the positive \<^verbatim>\<open>gamma\<close> of a row whose mean reprojection error is
  the least over all rows with a candidate and strictly less than that of every
  earlier row (the first row wins a tie); after failure they are 0.
\<close>

theorem initializeIntrinsics_best_row:
  "(target obs = None \<longrightarrow> initializeIntrinsics E D c (obs # others) = Inr (False, c))
   \<and> (\<forall>tgt. target obs = Some tgt \<longrightarrow>
        (\<exists>ok c'. initializeIntrinsics E D c (obs # others) = Inr (ok, c')
           \<and> (ok \<longleftrightarrow> (\<exists>r<rows tgt. \<exists>g e.
                  rowCandidate E D obs tgt (preparedCamera D c obs) r = Some (g, e) \<and> e < DBL_MAX))
           \<and> fv c' = fu c'
           \<and> (ok \<longrightarrow> (\<exists>r<rows tgt. \<exists>e.
                  rowCandidate E D obs tgt (preparedCamera D c obs) r = Some (fu c', e) \<and> 0 < fu c' \<and> e < DBL_MAX
                \<and> (\<forall>r'<rows tgt. \<forall>g' e'.
                     rowCandidate E D obs tgt (preparedCamera D c obs) r' = Some (g', e') \<longrightarrow> e \<le> e')
                \<and> (\<forall>r'<r. \<forall>g' e'.
                     rowCandidate E D obs tgt (preparedCamera D c obs) r' = Some (g', e') \<longrightarrow> e < e')))
           \<and> (\<not> ok \<longrightarrow> fu c' = 0)))"
proof (intro conjI allI impI)
  assume "target obs = None"
  then show "initializeIntrinsics E D c (obs # others) = Inr (False, c)"
    by (rule initializeIntrinsics_no_target)
next
  fix tgt assume tgt: "target obs = Some tgt"
  define c0 where "c0 = preparedCamera D c obs"
  define s where "s = rowLoop E D obs tgt [0..<rows tgt]
                \<lparr>cam = c0, gamma0 = 0, minReprojErr = DBL_MAX, success = False\<rparr>"
  define c' where "c' = updateTemporaries ((cam s)\<lparr>fu := gamma0 s, fv := gamma0 s\<rparr>)"
  have ret: "initializeIntrinsics E D c (obs # others) = Inr (success s, c')"
    using initializeIntrinsics_with_target[OF tgt, of E D c others]
    by (simp add: Let_def s_def c'_def c0_def)
  have focal: "fu c' = gamma0 s" "fv c' = gamma0 s"
    by (simp_all add: c'_def updateTemporaries_def)
  have inv: "bestSoFar (rowCandidate E D obs tgt c0) (rows tgt) s"
    using rowLoop_invariant[of E D obs tgt "rows tgt" c0] by (simp add: s_def)
  have a: "success s \<longleftrightarrow> (\<exists>r<rows tgt. \<exists>g e. rowCandidate E D obs tgt c0 r = Some (g, e) \<and> e < DBL_MAX)"
    using inv unfolding bestSoFar_def by blast
  have b: "success s \<longrightarrow> (\<exists>r<rows tgt. \<exists>e.
                  rowCandidate E D obs tgt c0 r = Some (fu c', e) \<and> 0 < fu c' \<and> e < DBL_MAX
                \<and> (\<forall>r'<rows tgt. \<forall>g' e'. rowCandidate E D obs tgt c0 r' = Some (g', e') \<longrightarrow> e \<le> e')
                \<and> (\<forall>r'<r. \<forall>g' e'. rowCandidate E D obs tgt c0 r' = Some (g', e') \<longrightarrow> e < e'))"
  proof
    assume "success s"
    with inv obtain r where r: "r < rows tgt"
      "rowCandidate E D obs tgt c0 r = Some (gamma0 s, minReprojErr s)" "minReprojErr s < DBL_MAX"
      "\<forall>r'<r. \<forall>g e. rowCandidate E D obs tgt c0 r' = Some (g, e) \<longrightarrow> minReprojErr s < e"
      unfolding bestSoFar_def by blast
    moreover have "\<forall>r'<rows tgt. \<forall>g' e'. rowCandidate E D obs tgt c0 r' = Some (g', e') \<longrightarrow> minReprojErr s \<le> e'"
      using inv unfolding bestSoFar_def by blast
    moreover have "0 < gamma0 s"
      using r(2) by (rule rowCandidate_gamma_pos)
    ultimately show "\<exists>r<rows tgt. \<exists>e.
                  rowCandidate E D obs tgt c0 r = Some (fu c', e) \<and> 0 < fu c' \<and> e < DBL_MAX
                \<and> (\<forall>r'<rows tgt. \<forall>g' e'. rowCandidate E D obs tgt c0 r' = Some (g', e') \<longrightarrow> e \<le> e')
                \<and> (\<forall>r'<r. \<forall>g' e'. rowCandidate E D obs tgt c0 r' = Some (g', e') \<longrightarrow> e < e')"
      unfolding focal by blast
  qed
  have d: "\<not> success s \<longrightarrow> fu c' = 0"
    using inv unfolding bestSoFar_def focal by blast
  show "\<exists>ok c'. initializeIntrinsics E D c (obs # others) = Inr (ok, c')
           \<and> (ok \<longleftrightarrow> (\<exists>r<rows tgt. \<exists>g e.
                  rowCandidate E D obs tgt (preparedCamera D c obs) r = Some (g, e) \<and> e < DBL_MAX))
           \<and> fv c' = fu c'
           \<and> (ok \<longrightarrow> (\<exists>r<rows tgt. \<exists>e.
                  rowCandidate E D obs tgt (preparedCamera D c obs) r = Some (fu c', e) \<and> 0 < fu c' \<and> e < DBL_MAX
                \<and> (\<forall>r'<rows tgt. \<forall>g' e'.
                     rowCandidate E D obs tgt (preparedCamera D c obs) r' = Some (g', e') \<longrightarrow> e \<le> e')
                \<and> (\<forall>r'<r. \<forall>g' e'.
                     rowCandidate E D obs tgt (preparedCamera D c obs) r' = Some (g', e') \<longrightarrow> e < e')))
           \<and> (\<not> ok \<longrightarrow> fu c' = 0)"
    unfolding c0_def[symmetric]
    using ret a b d focal by (intro exI[of _ "success s"] exI[of _ c']) simp
qed

text \<open>The three-row observation, evaluated row by row.\<close>

lemma upt_0_12: "[0..<12] = [0, 1, 2, 3, 4, 5, 6, 7, 8, 9, 10, 11]"
  by code_simp

lemma threeRowCorner_values:
  "threeRowCorner 0 = (12, 16)" "threeRowCorner 1 = (20, 16)" "threeRowCorner 2 = (40, 16)" "threeRowCorner 3 = (48, 16)"
  "threeRowCorner 4 = (12, 40)" "threeRowCorner 5 = (20, 40)" "threeRowCorner 6 = (40, 40)" "threeRowCorner 7 = (48, 40)"
  "threeRowCorner 8 = (12, 64)" "threeRowCorner 9 = (20, 64)" "threeRowCorner 10 = (40, 64)" "threeRowCorner 11 = (48, 64)"
  "threeRowCorner (Suc 0) = (20, 16)"
  by (simp_all add: threeRowCorner_def gridX_def gridY_def)

lemma threeRowPoint_values:
  "point threeRowTarget 0 = (- 9, - 12, 1)" "point threeRowTarget 1 = (- 5, - 12, 1)"
  "point threeRowTarget 2 = (5, - 12, 1)" "point threeRowTarget 3 = (9, - 12, 1)"
  "point threeRowTarget 4 = (- 9, 0, 1)" "point threeRowTarget 5 = (- 5, 0, 1)"
  "point threeRowTarget 6 = (5, 0, 1)" "point threeRowTarget 7 = (9, 0, 1)"
  "point threeRowTarget 8 = (- 9, 12, 1)" "point threeRowTarget 9 = (- 5, 12, 1)"
  "point threeRowTarget 10 = (5, 12, 1)" "point threeRowTarget 11 = (9, 12, 1)"
  "point threeRowTarget (Suc 0) = (- 5, - 12, 1)"
  by (simp_all add: threeRowTarget_def gridX_def gridY_def)

lemma threeRowCamera_fields:
  "fu (threeRowCamera g) = g" "fv (threeRowCamera g) = g"
  "cu (threeRowCamera g) = 30" "cv (threeRowCamera g) = 40"
  "ru (threeRowCamera g) = 61" "rv (threeRowCamera g) = 81"
  "distortion (threeRowCamera g) = ()"
  by (simp_all add: threeRowCamera_def updateTemporaries_def preparedCamera_def threeRowObservation_def)

lemma threeRow_estimate:
  "estimateTransformation rowwiseNumerics noDistortion (threeRowCamera g) threeRowObservation = Some ()"
  by (simp add: estimateTransformation_def threeRowObservation_def upt_0_12 threeRowCorner_values
      keypointToEuclidean_def isValid_def threeRowCamera_fields noDistortion_def Let_def)

lemma sqrt_vals:
  "sqrt 225 = 15" "sqrt 169 = 13" "sqrt 81 = 9" "sqrt 25 = 5"
  "sqrt (225 / 4) = 15 / 2" "sqrt (169 / 4) = 13 / 2" "sqrt (81 / 4) = 9 / 2" "sqrt (25 / 4) = 5 / 2"
  by (rule real_sqrt_unique; simp add: power2_eq_square)+

lemma threeRow_error_1:
  "computeReprojectionError rowwiseNumerics noDistortion (threeRowCamera 1) threeRowObservation
     threeRowTarget () = (140, 12)"
  apply (simp add: computeReprojectionError_def threeRowTarget_def[THEN arg_cong, of sizeT] upt_0_12)
  apply (simp add: threeRowObservation_def threeRowPoint_values threeRowCorner_values rowwiseNumerics_def
      euclideanToKeypoint_def isValid_def threeRowCamera_fields noDistortion_def norm_diff_def Let_def sqrt_vals)
  done

lemma threeRow_error_2:
  "computeReprojectionError rowwiseNumerics noDistortion (threeRowCamera (3 / 2)) threeRowObservation
     threeRowTarget () = (70, 12)"
  apply (simp add: computeReprojectionError_def threeRowTarget_def[THEN arg_cong, of sizeT] upt_0_12)
  apply (simp add: threeRowObservation_def threeRowPoint_values threeRowCorner_values rowwiseNumerics_def
      euclideanToKeypoint_def isValid_def threeRowCamera_fields noDistortion_def norm_diff_def Let_def sqrt_vals)
  done

lemma threeRow_error_3:
  "computeReprojectionError rowwiseNumerics noDistortion (threeRowCamera (5 / 2)) threeRowObservation
     threeRowTarget () = (70, 12)"
  apply (simp add: computeReprojectionError_def threeRowTarget_def[THEN arg_cong, of sizeT] upt_0_12)
  apply (simp add: threeRowObservation_def threeRowPoint_values threeRowCorner_values rowwiseNumerics_def
      euclideanToKeypoint_def isValid_def threeRowCamera_fields noDistortion_def norm_diff_def Let_def sqrt_vals)
  done

lemma threeRow_solveZ:
  "solveZ rowwiseNumerics (cornerRows threeRowObservation
      (preparedCamera noDistortion (getTestProjection ()) threeRowObservation) 0 [0..<4]) = (0, 0, 1, 1)"
  "solveZ rowwiseNumerics (cornerRows threeRowObservation
      (preparedCamera noDistortion (getTestProjection ()) threeRowObservation) 1 [0..<4]) = (0, 0, 3 / 2, 2 / 3)"
  "solveZ rowwiseNumerics (cornerRows threeRowObservation
      (preparedCamera noDistortion (getTestProjection ()) threeRowObservation) 2 [0..<4]) = (0, 0, 5 / 2, 2 / 5)"
  "solveZ rowwiseNumerics (cornerRows threeRowObservation
      (preparedCamera noDistortion (getTestProjection ()) threeRowObservation) (Suc 0) [0..<4]) = (0, 0, 3 / 2, 2 / 3)"
  by (simp_all add: upt_0_4 threeRowObservation_def threeRowCorner_values rowwiseNumerics_def
      preparedCamera_def Let_def)

lemma threeRow_count:
  "length (cornerRows threeRowObservation c r [0..<4]) = 4"
  by (simp add: upt_0_4 threeRowObservation_def Let_def)

lemma threeRow_candidates:
  "rowCandidate rowwiseNumerics noDistortion threeRowObservation threeRowTarget
     (preparedCamera noDistortion (getTestProjection ()) threeRowObservation) 0 = Some (1, 35 / 3)"
  "rowCandidate rowwiseNumerics noDistortion threeRowObservation threeRowTarget
     (preparedCamera noDistortion (getTestProjection ()) threeRowObservation) 1 = Some (3 / 2, 35 / 6)"
  "rowCandidate rowwiseNumerics noDistortion threeRowObservation threeRowTarget
     (preparedCamera noDistortion (getTestProjection ()) threeRowObservation) 2 = Some (5 / 2, 35 / 6)"
  by (simp_all add: rowCandidate_def threeRowTarget_def[THEN arg_cong, of cols] threeRow_count
      threeRow_solveZ MIN_CORNERS_def Let_def square_def hypot_def threeRowCamera_def[symmetric]
      threeRow_estimate threeRow_error_1 threeRow_error_2 threeRow_error_3)

theorem initializeIntrinsics_best_row_witness:
  "\<exists>c'. initializeIntrinsics rowwiseNumerics noDistortion (getTestProjection ()) [threeRowObservation]
          = Inr (True, c') \<and> fu c' = 3 / 2 \<and> fv c' = 3 / 2"
proof -
  let ?cand = "rowCandidate rowwiseNumerics noDistortion threeRowObservation threeRowTarget
        (preparedCamera noDistortion (getTestProjection ()) threeRowObservation)"
  have t: "target threeRowObservation = Some threeRowTarget" "rows threeRowTarget = 3"
    by (simp_all add: threeRowObservation_def threeRowTarget_def)
  note th = initializeIntrinsics_best_row
    [of threeRowObservation rowwiseNumerics noDistortion "getTestProjection ()" "[]",
      THEN conjunct2, rule_format, OF t(1)]
  from th obtain ok c' where r:
    "initializeIntrinsics rowwiseNumerics noDistortion (getTestProjection ()) [threeRowObservation] = Inr (ok, c')"
    "ok \<longleftrightarrow> (\<exists>r<3. \<exists>g e. ?cand r = Some (g, e) \<and> e < DBL_MAX)"
    "fv c' = fu c'"
    "ok \<longrightarrow> (\<exists>r<3. \<exists>e. ?cand r = Some (fu c', e)
        \<and> (\<forall>r'<3. \<forall>g' e'. ?cand r' = Some (g', e') \<longrightarrow> e \<le> e')
        \<and> (\<forall>r'<r. \<forall>g' e'. ?cand r' = Some (g', e') \<longrightarrow> e < e'))"
    unfolding t by blast
  have big: "(35 / 3 :: real) < DBL_MAX"
    by (simp add: DBL_MAX_def)
  have ok: ok
    unfolding r(2)
  proof (intro exI conjI)
    show "(0::nat) < 3" by simp
    show "?cand 0 = Some (1, 35 / 3)" by (rule threeRow_candidates(1))
    show "(35 / 3 :: real) < DBL_MAX" by (rule big)
  qed
  with r(4) obtain row e where row: "row < 3" "?cand row = Some (fu c', e)"
    "\<forall>r'<3. \<forall>g' e'. ?cand r' = Some (g', e') \<longrightarrow> e \<le> e'"
    "\<forall>r'<row. \<forall>g' e'. ?cand r' = Some (g', e') \<longrightarrow> e < e'"
    by blast
  from row(1) consider "row = 0" | "row = 1" | "row = 2"
    by linarith
  then have "fu c' = 3 / 2"
  proof cases
    case 1
    with row(2) threeRow_candidates(1) have "e = 35 / 3" by simp
    moreover have "e \<le> 35 / 6"
      by (rule row(3)[rule_format, OF _ threeRow_candidates(2)]) simp
    ultimately show ?thesis by simp
  next
    case 2
    with row(2) threeRow_candidates(2) show ?thesis by simp
  next
    case 3
    with row(2) threeRow_candidates(3) have "e = 35 / 6" by simp
    moreover have "e < 35 / 6"
      by (rule row(4)[rule_format, OF _ threeRow_candidates(2)]) (simp add: 3)
    ultimately show ?thesis by simp
  qed
  with r(1,3) ok show ?thesis by simp
qed

section \<open>The cached reciprocals\<close>

lemma cachesFresh_updateTemporaries: "cachesFresh (updateTemporaries c)"
  by (simp add: cachesFresh_def updateTemporaries_def)

lemma cachesFresh_update: "cachesFresh (update c v)"
  by (cases v) (simp add: cachesFresh_def update_def Let_def)

lemma cachesFresh_setParameters: "setParameters c P = Inr c' \<Longrightarrow> cachesFresh c'"
  by (auto simp: setParameters_def cachesFresh_updateTemporaries split: sum.splits)

lemma cachesFresh_resizeIntrinsics: "cachesFresh (resizeIntrinsics c scale)"
  by (simp add: resizeIntrinsics_def Let_def cachesFresh_updateTemporaries)

lemma cachesFresh_load: "load V c ar version = Inr c' \<Longrightarrow> cachesFresh c'"
  by (auto simp: load_def cachesFresh_updateTemporaries split: if_splits)

lemma cachesFresh_initializeIntrinsics:
  "cachesFresh c \<Longrightarrow> initializeIntrinsics E D c observations = Inr (ok, c') \<Longrightarrow> cachesFresh c'"
  by (auto simp: initializeIntrinsics_def Let_def cachesFresh_updateTemporaries split: list.splits option.splits)

lemma cachesFresh_ctor: "cachesFresh (PinholeProjection_ctor a b u v r s d)"
  by (simp add: PinholeProjection_ctor_def cachesFresh_updateTemporaries)

lemma initializeIntrinsics_returns:
  "\<exists>ok c'. initializeIntrinsics E D c (obs # others) = Inr (ok, c')"
  by (cases "target obs") (auto simp: initializeIntrinsics_def Let_def)

text \<open>
  C7. Every constructor and every mutator leaves the caches fresh: \<^verbatim>\<open>update\<close>,
  \<^verbatim>\<open>setParameters\<close>, \<^verbatim>\<open>resizeIntrinsics\<close> and \<^verbatim>\<open>load\<close> recompute them before they
  return, and so does \<^verbatim>\<open>initializeIntrinsics\<close> on every path that writes a focal
  length; its one return that does not recompute them (null target) has not touched
  the object, so caches that were fresh stay fresh. An unsupported version and an
  empty observation vector throw before the object is written. An index of
  \<^verbatim>\<open>setParameters\<close> out of range is an Eigen assertion failure, which ends the
  program; it can come after \<^verbatim>\<open>_fu\<close>, \<^verbatim>\<open>_fv\<close> or \<^verbatim>\<open>_cu\<close> have been written,
  and the model has no object for that path.
\<close>

theorem caches_never_stale:
  "cachesFresh (PinholeProjection_ctor a b u v r s d)
   \<and> cachesFresh (update c delta)
   \<and> (\<forall>c'. setParameters c P = Inr c' \<longrightarrow> cachesFresh c')
   \<and> cachesFresh (resizeIntrinsics c scale)
   \<and> (\<forall>c'. load V c ar version = Inr c' \<longrightarrow> cachesFresh c')
   \<and> (cachesFresh c \<longrightarrow>
        (\<forall>ok c'. initializeIntrinsics E D c observations = Inr (ok, c') \<longrightarrow> cachesFresh c'))"
proof (intro conjI allI impI)
  show "cachesFresh (PinholeProjection_ctor a b u v r s d)" by (rule cachesFresh_ctor)
  show "cachesFresh (update c delta)" by (rule cachesFresh_update)
  show "cachesFresh (resizeIntrinsics c scale)" by (rule cachesFresh_resizeIntrinsics)
  show "cachesFresh c'" if "setParameters c P = Inr c'" for c'
    using that by (rule cachesFresh_setParameters)
  show "cachesFresh c'" if "load V c ar version = Inr c'" for c'
    using that by (rule cachesFresh_load)
  show "cachesFresh c'"
    if "cachesFresh c" and "initializeIntrinsics E D c observations = Inr (ok, c')" for ok c'
    using that by (rule cachesFresh_initializeIntrinsics)
qed

theorem caches_never_stale_witness:
  "cachesFresh (getTestProjection ())
   \<and> cachesFresh (update (getTestProjection ()) (1, 2, 3, 4))
   \<and> (\<exists>c'. setParameters (getTestProjection ())
              \<lparr>dynamic = True, m_rows = 4, m_cols = 1, coeffs = [[500], [450], [300], [200]]\<rparr> = Inr c'
          \<and> cachesFresh c' \<and> fv c' = 450)
   \<and> cachesFresh (resizeIntrinsics (getTestProjection ()) (1 / 2))
   \<and> (\<exists>c'. load 1 (getTestProjection ())
              \<lparr>ar_fu = 300, ar_fv = 310, ar_cu = 100, ar_cv = 90, ar_ru = 200, ar_rv = 180,
               ar_distortion = ()\<rparr> 0 = Inr c'
          \<and> cachesFresh c' \<and> fu c' = 300)
   \<and> (\<exists>ok c'. initializeIntrinsics sampleNumerics noDistortion (getTestProjection ())
                 [sampleObservation] = Inr (ok, c') \<and> cachesFresh c')"
proof -
  have sp: "\<exists>c'. setParameters (getTestProjection ())
              \<lparr>dynamic = True, m_rows = 4, m_cols = 1, coeffs = [[500], [450], [300], [200]]\<rparr> = Inr c'
              \<and> fv c' = 450"
    by (simp add: setParameters_def coeff_at_def updateTemporaries_def)
  have ld: "\<exists>c'. load 1 (getTestProjection ())
              \<lparr>ar_fu = 300, ar_fv = 310, ar_cu = 100, ar_cv = 90, ar_ru = 200, ar_rv = 180,
               ar_distortion = ()\<rparr> 0 = Inr c' \<and> fu c' = 300"
    by (simp add: load_def updateTemporaries_def)
  have ii: "\<exists>ok c'. initializeIntrinsics sampleNumerics noDistortion (getTestProjection ())
                 [sampleObservation] = Inr (ok, c')"
    by (rule initializeIntrinsics_returns)
  from caches_never_stale
    [of 400 400 320 240 640 480 "()" "getTestProjection ()" "(1, 2, 3, 4)"
        "\<lparr>dynamic = True, m_rows = 4, m_cols = 1, coeffs = [[500], [450], [300], [200]]\<rparr>"
        "1 / 2" 1
        "\<lparr>ar_fu = 300, ar_fv = 310, ar_cu = 100, ar_cv = 90, ar_ru = 200, ar_rv = 180,
               ar_distortion = ()\<rparr>" 0
        sampleNumerics noDistortion "[sampleObservation]"]
  show ?thesis
    using sp ld ii unfolding getTestProjection_def[symmetric]
    by blast
qed


section \<open>The circle helper\<close>

lemma sqrt_36: "sqrt 36 = 6"
  by (rule real_sqrt_unique) simp_all
lemma sqrt_16: "sqrt 16 = 4"
  by (rule real_sqrt_unique) simp_all

lemma intersectCircles_disjoint_or_nested:
  "hypot (x1 - x2) (y1 - y2) > r1 + r2 \<or> hypot (x1 - x2) (y1 - y2) < \<bar>r1 - r2\<bar> \<Longrightarrow>
   intersectCircles x1 y1 r1 x2 y2 r2 = ReturnedVector []"
  by (auto simp: intersectCircles_def Let_def)


lemma intersectCircles_tangent:
  assumes "\<not> hypot (x1 - x2) (y1 - y2) > r1 + r2" and "\<not> hypot (x1 - x2) (y1 - y2) < \<bar>r1 - r2\<bar>"
    and "d = hypot (x1 - x2) (y1 - y2)" and "a = (square r1 - square r2 + square d) / (2 * d)"
    and "sqrt (square r1 - square a) < 1 / 10 ^ 10"
  shows "intersectCircles x1 y1 r1 x2 y2 r2 =
           ReturnedVector [(x1 + a * (x2 - x1) / d, y1 + a * (y2 - y1) / d)]"
  using assms by (simp add: intersectCircles_def Let_def)

lemma intersectCircles_generic:
  assumes "\<not> hypot (x1 - x2) (y1 - y2) > r1 + r2" and "\<not> hypot (x1 - x2) (y1 - y2) < \<bar>r1 - r2\<bar>"
    and "d = hypot (x1 - x2) (y1 - y2)" and "a = (square r1 - square r2 + square d) / (2 * d)"
    and "h = sqrt (square r1 - square a)" and "\<not> h < 1 / 10 ^ 10"
    and "x3 = x1 + a * (x2 - x1) / d" and "y3 = y1 + a * (y2 - y1) / d"
  shows "intersectCircles x1 y1 r1 x2 y2 r2 =
           AddressOfDestroyedLocal
             [(x3 + h * (y2 - y1) / d, y3 - h * (x2 - x1) / d),
              (x3 - h * (y2 - y1) / d, y3 + h * (x2 - x1) / d)]"
  using assms by (simp add: intersectCircles_def Let_def)

text \<open>
  C8. Disjoint or nested circles give the empty vector and tangent circles give one
  point (the three lemmas above); circles in general position should give exactly
  two points. For the circles of radius 5 around \<open>(0, 0)\<close> and \<open>(6, 0)\<close> the function
  computes the two points \<open>(3, -4)\<close> and \<open>(3, 4)\<close> and then returns the address of its
  local vector: the caller can read no point through the result.
\<close>

theorem intersectCircles_two_points_lost:
  "intersectCircles 0 0 5 6 0 5 = AddressOfDestroyedLocal [(3, - 4), (3, 4)]
   \<and> pointee (intersectCircles 0 0 5 6 0 5) = None"
  by (simp add: intersectCircles_def hypot_def square_def Let_def sqrt_36 sqrt_16)

section \<open>Random keypoints\<close>

lemma createRandomKeypoint_interior:
  assumes "\<bar>r0\<bar> < 1" "\<bar>r1\<bar> < 1" "0 < ru c" "0 < rv c"
  shows "isValid c (createRandomKeypoint c (r0, r1))"
proof -
  have "\<bar>r0\<bar> * real_of_int (ru c) < 1 * real_of_int (ru c)"
    using assms by (intro mult_strict_right_mono) simp_all
  moreover have "\<bar>r1\<bar> * real_of_int (rv c) < 1 * real_of_int (rv c)"
    using assms by (intro mult_strict_right_mono) simp_all
  ultimately show ?thesis using assms
    by (simp add: createRandomKeypoint_def isValid_def Let_def)
qed

text \<open>
  C9. Every draw should give a valid keypoint. The draw \<open>(1, -1)\<close>, at the ends of
  the interval \<^verbatim>\<open>setRandom\<close> draws from, gives the keypoint \<open>(ru, rv)\<close> on the test
  projection, which \<^verbatim>\<open>isValid\<close> rejects. Draws strictly inside the interval are
  fine (the lemma above).
\<close>

theorem createRandomKeypoint_boundary_draw:
  "createRandomKeypoint (getTestProjection d) (1, - 1) = (640, 480)
   \<and> \<not> isValid (getTestProjection d) (createRandomKeypoint (getTestProjection d) (1, - 1))"
  by (simp add: createRandomKeypoint_def getTestProjection_fields isValid_def Let_def)

section \<open>The Jacobian overload of keypointToHomogeneous\<close>

lemma keypointToHomogeneousJ_fails:
  assumes "dynamic outJk \<or> (m_rows outJk = 4 \<and> m_cols outJk = 2)"
  shows "\<exists>e. keypointToHomogeneousJ D c keypoint outPoint outJk = Inl e"
  using assms
  by (auto simp: keypointToHomogeneousJ_def resize_def setZero_def topLeftCorner_def Let_def
      split: sum.splits)

text \<open>
  C10. The overload should produce a 4 by 2 Jacobian with every access in range.
  Called with a four-element output vector and a dynamic output matrix, it resizes
  the matrix to 2 by 4 and then asks for its top-left 3 by 2 block, which does not
  exist. With Eigen's assertions active no output matrix of an admitted type lets
  the call succeed (the lemma above): a fixed 4 by 2 matrix fails at the resize.
\<close>

theorem keypointToHomogeneousJ_block_out_of_range:
  "keypointToHomogeneousJ D c keypoint [0, 0, 0, 0] MatrixXd = Inl BlockOutOfRange"
  by (simp add: keypointToHomogeneousJ_def resize_def setZero_def topLeftCorner_def setCoeff_def MatrixXd_def Let_def)

end
